theory Spec2Isabelle
  imports Complex_Main
begin

section \<open>Shared JavaScript notions\<close>

text \<open>
  JavaScript strings are modelled as \<^typ>\<open>string\<close>; a value that may be \<open>null\<close> or
  \<open>undefined\<close> is a \<^typ>\<open>string option\<close>. \<open>falsy\<close> is the test \<open>!x\<close> on such a value:
  \<open>null\<close> and the empty string are falsy. \<open>js_or a b\<close> is \<open>a || b\<close>.
\<close>

definition falsy :: "string option \<Rightarrow> bool" where
  "falsy x = (case x of None \<Rightarrow> True | Some s \<Rightarrow> s = [])"

definition js_or :: "string option \<Rightarrow> string option \<Rightarrow> string option" where
  "js_or a b = (if falsy a then b else a)"

text \<open>\<open>URLSearchParams.get\<close> and \<open>FormData.get\<close>: the first value stored under the name.\<close>

definition get_param :: "(string \<times> string) list \<Rightarrow> string \<Rightarrow> string option" where
  "get_param ps name = map_of ps name"

text \<open>\<open>String.prototype.includes\<close>.\<close>

fun str_includes :: "string \<Rightarrow> string \<Rightarrow> bool" where
  "str_includes [] pat = (pat = [])"
| "str_includes (c # cs) pat = (take (length pat) (c # cs) = pat \<or> str_includes cs pat)"

text \<open>
  \<open>parseInt(s)\<close> with no radix: leading white space is skipped, an optional sign is read, a
  \<open>0x\<close>/\<open>0X\<close> prefix selects radix 16, and the longest prefix of digits of the radix is the
  value; anything after it is ignored. No digit at all gives \<open>NaN\<close>, here \<open>None\<close>. The
  Number is modelled as an \<^typ>\<open>int\<close>, which is exact below \<open>2 ^ 53\<close>.
\<close>

definition is_ws :: "char \<Rightarrow> bool" where
  "is_ws c = (of_char c \<in> {9::nat, 10, 11, 12, 13, 32, 160})"

definition digit_val :: "char \<Rightarrow> nat" where
  "digit_val c =
     (let n = (of_char c :: nat) in
      if 48 \<le> n \<and> n \<le> 57 then n - 48
      else if 97 \<le> n \<and> n \<le> 122 then n - 87
      else if 65 \<le> n \<and> n \<le> 90 then n - 55
      else 36)"

fun digits_value :: "nat \<Rightarrow> nat \<Rightarrow> string \<Rightarrow> nat" where
  "digits_value radix acc [] = acc"
| "digits_value radix acc (c # cs) = digits_value radix (acc * radix + digit_val c) cs"

definition parseInt :: "string \<Rightarrow> int option" where
  "parseInt s =
     (let s1 = dropWhile is_ws s;
          neg = (take 1 s1 = ''-'');
          s2 = (if take 1 s1 = ''-'' \<or> take 1 s1 = ''+'' then drop 1 s1 else s1);
          hex = (take 2 s2 = ''0x'' \<or> take 2 s2 = ''0X'');
          radix = (if hex then 16 else 10);
          s3 = (if hex then drop 2 s2 else s2);
          ds = takeWhile (\<lambda>c. digit_val c < radix) s3
      in if ds = [] then None
         else Some ((if neg then - 1 else 1) * int (digits_value radix 0 ds)))"

section \<open>The multipart session coordinator (server side)\<close>

text \<open>
  The request as the handlers read it. \<open>rq_authenticated\<close> is the answer of the login
  collaborator \<open>isAuthenticated(request, env)\<close>; \<open>rq_bucket_bound\<close> says whether
  \<open>env.CLOUD_FILES\<close> is bound; \<open>rq_form\<close> is what \<open>request.formData()\<close> resolves to
  (\<open>None\<close> when it throws), \<open>rq_json\<close> what \<open>request.json()\<close> resolves to; \<open>rq_body\<close> is the
  raw body (\<open>None\<close> when \<open>request.body\<close> is null).
\<close>

type_synonym bytes = "nat list"

record json_fields =
  j_key :: "string option"
  j_contentType :: "string option"
  j_uploadId :: "string option"
  j_partNumber :: "int option"
  j_parts :: "(int \<times> string) list option"

record request =
  rq_method :: string
  rq_authenticated :: bool
  rq_bucket_bound :: bool
  rq_query :: "(string \<times> string) list"
  rq_content_type :: "string option"
  rq_form :: "(string \<times> string) list option"
  rq_json :: "json_fields option"
  rq_body :: "bytes option"

text \<open>
  The storage backend's multipart primitives are external: their answers are parameters.
  An \<open>Inl\<close> is the message of the error the primitive throws.
\<close>

record backend =
  be_create :: "string \<Rightarrow> string option \<Rightarrow> string + (string \<times> string)"
  be_uploadPart :: "string \<Rightarrow> string \<Rightarrow> int \<Rightarrow> bytes \<Rightarrow> string + (int \<times> string)"
  be_complete :: "string \<Rightarrow> string \<Rightarrow> (int \<times> string) list \<Rightarrow> string + (string \<times> string \<times> nat)"
  be_abort :: "string \<Rightarrow> string \<Rightarrow> string option"

datatype bucket_call =
    CreateMultipartUpload string "string option"
  | ResumeMultipartUpload string string
  | UploadPart int bytes
  | CompleteUpload "(int \<times> string) list"
  | AbortUpload

datatype payload =
    Cors
  | ErrorMessage string
  | Created string string
  | UploadUrl string string int
  | PartStored int string
  | Completed string string nat
  | Aborted
  | Uploaded string string nat string

type_synonym reply = "(nat \<times> payload) \<times> bucket_call list"

definition api_error :: "string \<Rightarrow> nat \<Rightarrow> nat \<times> payload" where
  "api_error msg code = (code, ErrorMessage msg)"

definition api_success :: "payload \<Rightarrow> nat \<times> payload" where
  "api_success p = (200, p)"

text \<open>\<open>error.message || fallback\<close>.\<close>

definition message_or :: "string \<Rightarrow> string \<Rightarrow> string" where
  "message_or msg fallback = (if msg = [] then fallback else msg)"

definition show_action :: "string option \<Rightarrow> string" where
  "show_action a = (case a of None \<Rightarrow> ''null'' | Some s \<Rightarrow> s)"

text \<open>
  Lines 222 to 251 of the coordinator: the three parameters are read from the query string
  first; only when one of them is falsy is the body looked at, and only a
  \<open>multipart/form-data\<close> body is read, each form field filling in a parameter the query
  string did not give. The last component says whether \<open>request.formData()\<close> was called,
  which consumes the body.
\<close>

definition extract_params ::
  "request \<Rightarrow> string option \<times> string option \<times> string option \<times> bool" where
  "extract_params rq =
     (let uploadId = get_param (rq_query rq) ''uploadId'';
          partNumberStr = get_param (rq_query rq) ''partNumber'';
          key = get_param (rq_query rq) ''key''
      in if falsy uploadId \<or> falsy partNumberStr \<or> falsy key then
           (let contentType = (case rq_content_type rq of None \<Rightarrow> [] | Some c \<Rightarrow> c)
            in if str_includes contentType ''application/json'' then
                 (uploadId, partNumberStr, key, False)
               else if str_includes contentType ''multipart/form-data'' then
                 (case rq_form rq of
                    None \<Rightarrow> (uploadId, partNumberStr, key, True)
                  | Some fd \<Rightarrow>
                      (js_or uploadId (get_param fd ''uploadId''),
                       js_or partNumberStr (get_param fd ''partNumber''),
                       js_or key (get_param fd ''key''), True))
               else (uploadId, partNumberStr, key, False))
         else (uploadId, partNumberStr, key, False))"

text \<open>
  \<open>handleUploadPart\<close>, shared by PUT and by POST with \<open>action=upload-part\<close>. A body that
  \<open>formData()\<close> has consumed cannot be read again: \<open>request.arrayBuffer()\<close> then throws, inside
  the inner \<open>try\<close>, after the session handle was resumed; the message of that error is the
  platform's. The status of \<open>API.cors\<close>, which is not part of the sources at hand, is taken
  as 204.
\<close>

definition handleUploadPart :: "backend \<Rightarrow> request \<Rightarrow> reply" where
  "handleUploadPart be rq =
     (if rq_method rq = ''OPTIONS'' then ((204, Cors), [])
      else if \<not> rq_authenticated rq then (api_error ''Authentication required'' 401, [])
      else if \<not> rq_bucket_bound rq then (api_error ''Cloud storage not configured'' 500, [])
      else if get_param (rq_query rq) ''action'' \<noteq> Some ''upload-part'' then
        (api_error (''Unknown action: '' @ show_action (get_param (rq_query rq) ''action'')) 400, [])
      else
        (case extract_params rq of (uploadId, partNumberStr, key, consumed) \<Rightarrow>
           if falsy uploadId \<or> falsy partNumberStr \<or> falsy key then
             (api_error ''Missing uploadId, partNumber, or key'' 400, [])
           else
             (case parseInt (the partNumberStr) of
                None \<Rightarrow> (api_error ''Invalid part number'' 400, [])
              | Some partNumber \<Rightarrow>
                  if partNumber < 1 then (api_error ''Invalid part number'' 400, [])
                  else
                    (case rq_body rq of
                       None \<Rightarrow> (api_error ''Missing request body'' 400, [])
                     | Some arrayBuffer \<Rightarrow>
                         if consumed then
                           (api_error ''Body has already been used'' 400,
                            [ResumeMultipartUpload (the key) (the uploadId)])
                         else
                           (case be_uploadPart be (the key) (the uploadId) partNumber arrayBuffer of
                              Inl msg \<Rightarrow>
                                (api_error (message_or msg ''Failed to upload part'') 400,
                                 [ResumeMultipartUpload (the key) (the uploadId),
                                  UploadPart partNumber arrayBuffer])
                            | Inr (pn, etag) \<Rightarrow>
                                (api_success (PartStored pn etag),
                                 [ResumeMultipartUpload (the key) (the uploadId),
                                  UploadPart partNumber arrayBuffer]))))))"

definition PUT :: "backend \<Rightarrow> request \<Rightarrow> reply" where
  "PUT be rq = handleUploadPart be rq"

text \<open>
  \<open>parseRequestData\<close>: the JSON body, or an exception (\<open>None\<close>) when the content type is
  not JSON or the body does not parse. In \<open>POST\<close> the exception reaches the outer \<open>catch\<close>.
\<close>

definition parseRequestData :: "request \<Rightarrow> json_fields option" where
  "parseRequestData rq =
     (if str_includes (case rq_content_type rq of None \<Rightarrow> [] | Some c \<Rightarrow> c) ''application/json''
      then rq_json rq else None)"

definition http_metadata :: "string option \<Rightarrow> string option" where
  "http_metadata contentType = (if falsy contentType then None else contentType)"

definition POST :: "backend \<Rightarrow> request \<Rightarrow> reply" where
  "POST be rq =
     (if rq_method rq = ''OPTIONS'' then ((204, Cors), [])
      else if \<not> rq_authenticated rq then (api_error ''Authentication required'' 401, [])
      else if \<not> rq_bucket_bound rq then (api_error ''Cloud storage not configured'' 500, [])
      else
        (let action = get_param (rq_query rq) ''action'' in
         if falsy action then (api_error ''Missing action parameter'' 400, [])
         else if action = Some ''create'' then
           (case parseRequestData rq of
              None \<Rightarrow> (api_error ''Multipart upload failed'' 500, [])
            | Some d \<Rightarrow>
                if falsy (j_key d) then (api_error ''Missing key parameter'' 400, [])
                else
                  (case be_create be (the (j_key d)) (http_metadata (j_contentType d)) of
                     Inl msg \<Rightarrow>
                       (api_error ''Failed to create multipart upload'' 500,
                        [CreateMultipartUpload (the (j_key d)) (http_metadata (j_contentType d))])
                   | Inr (k, uploadId) \<Rightarrow>
                       (api_success (Created k uploadId),
                        [CreateMultipartUpload (the (j_key d)) (http_metadata (j_contentType d))])))
         else if action = Some ''get-upload-url'' then
           (case parseRequestData rq of
              None \<Rightarrow> (api_error ''Multipart upload failed'' 500, [])
            | Some d \<Rightarrow>
                if falsy (j_uploadId d) \<or> falsy (j_key d) \<or> j_partNumber d = None
                   \<or> j_partNumber d = Some 0 then
                  (api_error ''Missing uploadId, key, or partNumber'' 400, [])
                else
                  (api_success (UploadUrl (the (j_uploadId d)) (the (j_key d)) (the (j_partNumber d))),
                   [ResumeMultipartUpload (the (j_key d)) (the (j_uploadId d))]))
         else if action = Some ''upload-part'' then handleUploadPart be rq
         else if action = Some ''complete'' then
           (case parseRequestData rq of
              None \<Rightarrow> (api_error ''Multipart upload failed'' 500, [])
            | Some d \<Rightarrow>
                if falsy (j_uploadId d) \<or> falsy (j_key d) \<or> j_parts d = None then
                  (api_error ''Missing required parameters'' 400, [])
                else
                  (case be_complete be (the (j_key d)) (the (j_uploadId d)) (the (j_parts d)) of
                     Inl msg \<Rightarrow>
                       (api_error (message_or msg ''Failed to complete multipart upload'') 400,
                        [ResumeMultipartUpload (the (j_key d)) (the (j_uploadId d)),
                         CompleteUpload (the (j_parts d))])
                   | Inr (k, etag, sz) \<Rightarrow>
                       (api_success (Completed k etag sz),
                        [ResumeMultipartUpload (the (j_key d)) (the (j_uploadId d)),
                         CompleteUpload (the (j_parts d))])))
         else (api_error (''Unknown action: '' @ show_action action) 400, [])))"

text \<open>The abort operation, as the source has it: no call of \<open>isAuthenticated\<close>.\<close>

definition DELETE :: "backend \<Rightarrow> request \<Rightarrow> reply" where
  "DELETE be rq =
     (if rq_method rq = ''OPTIONS'' then ((204, Cors), [])
      else if \<not> rq_bucket_bound rq then (api_error ''Cloud storage not configured'' 500, [])
      else if get_param (rq_query rq) ''action'' \<noteq> Some ''abort'' then
        (api_error (''Unknown action: '' @ show_action (get_param (rq_query rq) ''action'')) 400, [])
      else
        (let uploadId = get_param (rq_query rq) ''uploadId'';
             key = get_param (rq_query rq) ''key''
         in if falsy uploadId \<or> falsy key then (api_error ''Missing uploadId or key'' 400, [])
            else
              (case be_abort be (the key) (the uploadId) of
                 Some msg \<Rightarrow>
                   (api_error (message_or msg ''Failed to abort multipart upload'') 400,
                    [ResumeMultipartUpload (the key) (the uploadId), AbortUpload])
               | None \<Rightarrow>
                   (api_success Aborted,
                    [ResumeMultipartUpload (the key) (the uploadId), AbortUpload]))))"

text \<open>Concrete requests used to run the handlers.\<close>

definition anonymous_abort :: request where
  "anonymous_abort =
     \<lparr>rq_method = ''DELETE'', rq_authenticated = False, rq_bucket_bound = True,
      rq_query = [(''action'', ''abort''), (''uploadId'', ''u1''), (''key'', ''a.bin'')],
      rq_content_type = None, rq_form = None, rq_json = None, rq_body = None\<rparr>"

definition mixed_part_request :: request where
  "mixed_part_request =
     \<lparr>rq_method = ''POST'', rq_authenticated = True, rq_bucket_bound = True,
      rq_query = [(''action'', ''upload-part''), (''uploadId'', ''fromQuery''), (''partNumber'', ''1'')],
      rq_content_type = Some ''multipart/form-data; boundary=x'',
      rq_form = Some [(''uploadId'', ''fromBody''), (''partNumber'', ''7''), (''key'', ''a.bin'')],
      rq_json = None, rq_body = Some [1, 2, 3]\<rparr>"

definition fractional_part_request :: request where
  "fractional_part_request =
     \<lparr>rq_method = ''PUT'', rq_authenticated = True, rq_bucket_bound = True,
      rq_query = [(''action'', ''upload-part''), (''uploadId'', ''u1''), (''partNumber'', ''2.5''),
                  (''key'', ''a.bin'')],
      rq_content_type = None, rq_form = None, rq_json = None, rq_body = Some [1, 2, 3]\<rparr>"

definition accepting_backend :: backend where
  "accepting_backend =
     \<lparr>be_create = (\<lambda>k ct. Inr (k, ''u1'')),
      be_uploadPart = (\<lambda>k u n b. Inr (n, ''etag'')),
      be_complete = (\<lambda>k u ps. Inr (k, ''etag'', 0)),
      be_abort = (\<lambda>k u. None)\<rparr>"

definition zero_part_request :: request where
  "zero_part_request =
     \<lparr>rq_method = ''PUT'', rq_authenticated = True, rq_bucket_bound = True,
      rq_query = [(''action'', ''upload-part''), (''uploadId'', ''u1''), (''partNumber'', ''0''),
                  (''key'', ''a.bin'')],
      rq_content_type = None, rq_form = None, rq_json = None, rq_body = Some [1, 2, 3]\<rparr>"

section \<open>The chunk planner/uploader (client side)\<close>

text \<open>
  What the browser code sees of the network: a fetch either throws (network failure, or the
  25 s timeout signal) or resolves to a response with a status and a body. Of the JSON
  bodies only the fields the planner reads are kept; \<open>Unparsable\<close> is a body on which
  \<open>response.json()\<close> throws. A field that is absent (\<open>undefined\<close>) is \<open>None\<close>.
\<close>

datatype json_reply =
    Unparsable
  | Obj (r_uploadId: "string option") (r_etag: "string option") (r_exists: bool)

datatype response = Response (resp_status: nat) (resp_json: json_reply)

datatype fetch_result = NetworkError | Resp response

definition ok :: "response \<Rightarrow> bool" where
  "ok r = (200 \<le> resp_status r \<and> resp_status r \<le> 299)"

text \<open>
  The requests the planner issues, and the events of a run in the order they happen. A part
  request carries the session id put into its URL (\<open>None\<close> when the variable is
  \<open>undefined\<close>), the key, the part number and the byte range of the blob it sends.
\<close>

datatype call =
    CheckAsset string
  | SimplePost string nat
  | CreateSession string string
  | PutPart "string option" string nat nat nat
  | CompleteSession "string option" string "(nat \<times> string option) list"

datatype event = Fetch call fetch_result | Sleep int | Confirm bool

type_synonym trace = "event list"

text \<open>
  The environment answers each fetch and each \<open>confirm\<close> dialog, possibly depending on
  everything that happened before. \<open>url_length\<close> is the length of the serialised
  upload-part URL, which the URL implementation decides.
\<close>

record env =
  net :: "trace \<Rightarrow> call \<Rightarrow> fetch_result"
  confirm :: "trace \<Rightarrow> bool"
  url_length :: "string option \<Rightarrow> string \<Rightarrow> nat \<Rightarrow> nat"

definition fetch :: "env \<Rightarrow> call \<Rightarrow> trace \<Rightarrow> fetch_result \<times> trace" where
  "fetch e c tr = (net e tr c, tr @ [Fetch c (net e tr c)])"

text \<open>
  The component's state that the two upload functions read: the selected file (its size and
  MIME type), \<open>replacingKey\<close>, and the keys the functions derive from \<open>customKey\<close>,
  \<open>folderPath\<close>, \<open>currentFolder\<close> and the file name when nothing is being replaced
  (\<open>ui_checkKey\<close> for the existence check and the simple upload, \<open>ui_uploadKey\<close> for the
  multipart upload, where a random file name may be drawn).
\<close>

record ui =
  ui_file :: "(nat \<times> string) option"
  ui_replacingKey :: "string option"
  ui_checkKey :: string
  ui_uploadKey :: string

definition finalKey :: "ui \<Rightarrow> string" where
  "finalKey u = (if falsy (ui_replacingKey u) then ui_checkKey u else the (ui_replacingKey u))"

definition multipartKey :: "ui \<Rightarrow> string" where
  "multipartKey u = (if falsy (ui_replacingKey u) then ui_uploadKey u else the (ui_replacingKey u))"

definition CHUNK_SIZE :: nat where
  "CHUNK_SIZE = 5 * 1024 * 1024"

definition FILE_SIZE_THRESHOLD :: nat where
  "FILE_SIZE_THRESHOLD = 1 * 1024 * 1024"

text \<open>
  \<open>Math.ceil(file.size / CHUNK_SIZE)\<close>. File sizes are integers below \<open>2 ^ 53\<close>, where the
  floating-point quotient rounds to no integer it does not equal, so the ceiling is the
  real one.
\<close>

definition totalParts :: "nat \<Rightarrow> nat" where
  "totalParts sz = nat \<lceil>real sz / real CHUNK_SIZE\<rceil>"

definition part_start :: "nat \<Rightarrow> nat" where
  "part_start i = CHUNK_SIZE * i"

definition part_end :: "nat \<Rightarrow> nat \<Rightarrow> nat" where
  "part_end sz i = min sz (part_start i + CHUNK_SIZE)"

text \<open>\<open>file.slice(start, end).size\<close>: both ends are clamped to the file.\<close>

definition slice_size :: "nat \<Rightarrow> nat \<Rightarrow> nat \<Rightarrow> nat" where
  "slice_size sz start end = min end sz - min start sz"

definition blob_size :: "nat \<Rightarrow> nat \<Rightarrow> nat" where
  "blob_size sz i = slice_size sz (part_start i) (part_end sz i)"

definition isLastPart :: "nat \<Rightarrow> nat \<Rightarrow> bool" where
  "isLastPart sz i = (int i = int (totalParts sz) - 1)"

text \<open>The errors thrown inside the retry loop's \<open>try\<close>, and those that end the upload.\<close>

datatype inner_error = FetchThrew | TooLarge413 | NotRetryable nat

datatype error =
    PartBelowMinimum nat
  | UrlTooLong nat
  | FailedAfterRetries nat inner_error
  | PartFailed nat
  | CreateThrew
  | CompleteThrew
  | CompleteFailed nat
  | JsonThrew
  | SimpleThrew
  | SimpleFailed nat

text \<open>
  One pass through the \<open>try\<close> block of the retry loop: the fetch succeeds (\<open>break\<close>), or
  something is thrown (by \<open>fetch\<close>, for a 413, or for a status that is not 408, 429 or
  5xx), or the status is retryable.
\<close>

datatype attempt = Succeeded response | Threw inner_error | Retryable response

definition classify :: "fetch_result \<Rightarrow> attempt" where
  "classify r =
     (case r of
        NetworkError \<Rightarrow> Threw FetchThrew
      | Resp resp \<Rightarrow>
          if ok resp then Succeeded resp
          else if resp_status resp = 413 then Threw TooLarge413
          else if resp_status resp \<noteq> 408 \<and> resp_status resp \<noteq> 429 \<and> resp_status resp < 500
            then Threw (NotRetryable (resp_status resp))
          else Retryable resp)"

text \<open>
  The loop \<open>while (retries > 0)\<close>, entered with \<open>retries\<close> and the last response assigned
  so far. Whatever is thrown inside the \<open>try\<close> is caught by the \<open>catch\<close> of the same
  \<open>try\<close>, which decrements \<open>retries\<close>, rethrows only when it has reached 0, and otherwise
  sleeps and loops. The sleep is \<open>1000 * (4 - retries)\<close> with \<open>retries\<close> already
  decremented.
\<close>

fun retry_loop ::
  "env \<Rightarrow> call \<Rightarrow> nat \<Rightarrow> nat \<Rightarrow> response option \<Rightarrow> trace
     \<Rightarrow> (error + response option) \<times> trace" where
  "retry_loop e c partNumber 0 prev tr = (Inr prev, tr)"
| "retry_loop e c partNumber (Suc retries) prev tr =
     (case fetch e c tr of (r, tr1) \<Rightarrow>
        (case classify r of
           Succeeded resp \<Rightarrow> (Inr (Some resp), tr1)
         | Retryable resp \<Rightarrow>
             if retries > 0
             then retry_loop e c partNumber retries (Some resp)
                    (tr1 @ [Sleep (1000 * (4 - int retries))])
             else retry_loop e c partNumber retries (Some resp) tr1
         | Threw err \<Rightarrow>
             if retries = 0 then (Inl (FailedAfterRetries partNumber err), tr1)
             else retry_loop e c partNumber retries
                    (case r of NetworkError \<Rightarrow> prev | Resp resp \<Rightarrow> Some resp)
                    (tr1 @ [Sleep (1000 * (4 - int retries))])))"

text \<open>
  The loop \<open>for (let i = 0; i < totalParts; i++)\<close> of phase 2, entered at \<open>i\<close> with the
  parts collected so far.
\<close>

function upload_parts ::
  "env \<Rightarrow> nat \<Rightarrow> string option \<Rightarrow> string \<Rightarrow> nat \<Rightarrow> (nat \<times> string option) list \<Rightarrow> trace
     \<Rightarrow> (error + (nat \<times> string option) list) \<times> trace" where
  "upload_parts e sz uploadId key i partsData tr =
     (if i < totalParts sz then
        (if \<not> isLastPart sz i \<and> blob_size sz i < CHUNK_SIZE then
           (Inl (PartBelowMinimum (i + 1)), tr)
         else if url_length e uploadId key (i + 1) > 15000 then
           (Inl (UrlTooLong (url_length e uploadId key (i + 1))), tr)
         else
           (case retry_loop e (PutPart uploadId key (i + 1) (part_start i) (part_end sz i))
                   (i + 1) 3 None tr of
              (Inl err, tr1) \<Rightarrow> (Inl err, tr1)
            | (Inr None, tr1) \<Rightarrow> (Inl (PartFailed (i + 1)), tr1)
            | (Inr (Some resp), tr1) \<Rightarrow>
                if \<not> ok resp then (Inl (PartFailed (i + 1)), tr1)
                else
                  (case resp_json resp of
                     Unparsable \<Rightarrow> (Inl JsonThrew, tr1)
                   | Obj u etag x \<Rightarrow>
                       upload_parts e sz uploadId key (i + 1)
                         (partsData @ [(i + 1, etag)]) tr1)))
      else (Inr partsData, tr))"
  by pat_completeness auto
termination
  by (relation "measure (\<lambda>(e, sz, uploadId, key, i, partsData, tr). totalParts sz - i)") auto

declare upload_parts.simps [simp del]

text \<open>
  Phases 1 to 3, from \<open>Step 1: Initiate upload\<close> to the end of the \<open>try\<close> block. The create
  response is parsed whatever its status, and \<open>uploadId\<close> is whatever its \<open>uploadId\<close> field
  holds. The result is the error the outer \<open>catch\<close> receives, or success.
\<close>

definition multipart_protocol :: "env \<Rightarrow> ui \<Rightarrow> nat \<Rightarrow> string \<Rightarrow> trace \<Rightarrow> (error + unit) \<times> trace" where
  "multipart_protocol e u sz ftype tr =
     (case fetch e (CreateSession (multipartKey u) ftype) tr of
        (NetworkError, tr1) \<Rightarrow> (Inl CreateThrew, tr1)
      | (Resp createResponse, tr1) \<Rightarrow>
          (case resp_json createResponse of
             Unparsable \<Rightarrow> (Inl JsonThrew, tr1)
           | Obj uploadId t x \<Rightarrow>
               (case upload_parts e sz uploadId (multipartKey u) 0 [] tr1 of
                  (Inl err, tr2) \<Rightarrow> (Inl err, tr2)
                | (Inr partsData, tr2) \<Rightarrow>
                    (case fetch e (CompleteSession uploadId (multipartKey u) partsData) tr2 of
                       (NetworkError, tr3) \<Rightarrow> (Inl CompleteThrew, tr3)
                     | (Resp completeResponse, tr3) \<Rightarrow>
                         if \<not> ok completeResponse then
                           (Inl (CompleteFailed (resp_status completeResponse)), tr3)
                         else
                           (case resp_json completeResponse of
                              Unparsable \<Rightarrow> (Inl JsonThrew, tr3)
                            | Obj u2 t2 x2 \<Rightarrow> (Inr (), tr3))))))"

text \<open>
  The existence check both upload functions start with: \<open>True\<close> when the upload goes on,
  \<open>False\<close> when the user declines to replace. A check that fails in any way lets the upload
  go on.
\<close>

definition confirm_replace :: "env \<Rightarrow> ui \<Rightarrow> trace \<Rightarrow> bool \<times> trace" where
  "confirm_replace e u tr =
     (if finalKey u \<noteq> [] \<and> falsy (ui_replacingKey u) then
        (case fetch e (CheckAsset (finalKey u)) tr of
           (NetworkError, tr1) \<Rightarrow> (True, tr1)
         | (Resp checkResponse, tr1) \<Rightarrow>
             if ok checkResponse then
               (case resp_json checkResponse of
                  Unparsable \<Rightarrow> (True, tr1)
                | Obj u1 t1 ex \<Rightarrow>
                    if ex then (confirm e tr1, tr1 @ [Confirm (confirm e tr1)])
                    else (True, tr1))
             else (True, tr1))
      else (True, tr))"

datatype outcome =
    NoFileSelected
  | Cancelled
  | SimpleUploaded
  | MultipartUploaded
  | UploadFailed error

text \<open>
  \<open>uploadFileSimple\<close> and \<open>uploadFileMultipart\<close> call each other: the first hands every file
  above \<open>FILE_SIZE_THRESHOLD\<close>, and every file the server answers 413 for, to the second;
  the second hands every file below \<open>CHUNK_SIZE\<close> to the first. The first argument bounds
  the number of nested calls; \<open>None\<close> means the bound was reached before either returned.
  The depth of the JavaScript stack is not modelled: it does not grow in a cycle that awaits
  a fetch, as every cycle does in which the existence check runs. The state updates of the
  component (progress, alerts, the reload of the file list) are left out.
\<close>

fun uploadFileSimple :: "nat \<Rightarrow> env \<Rightarrow> ui \<Rightarrow> trace \<Rightarrow> (outcome \<times> trace) option"
  and uploadFileMultipart :: "nat \<Rightarrow> env \<Rightarrow> ui \<Rightarrow> trace \<Rightarrow> (outcome \<times> trace) option" where
  "uploadFileSimple 0 e u tr = None"
| "uploadFileSimple (Suc n) e u tr =
     (case ui_file u of
        None \<Rightarrow> Some (NoFileSelected, tr)
      | Some (sz, ftype) \<Rightarrow>
          if sz > FILE_SIZE_THRESHOLD then uploadFileMultipart n e u tr
          else
            (case confirm_replace e u tr of
               (False, tr1) \<Rightarrow> Some (Cancelled, tr1)
             | (True, tr1) \<Rightarrow>
                 (case fetch e (SimplePost (finalKey u) sz) tr1 of
                    (NetworkError, tr2) \<Rightarrow> Some (UploadFailed SimpleThrew, tr2)
                  | (Resp resp, tr2) \<Rightarrow>
                      if resp_status resp = 413 then uploadFileMultipart n e u tr2
                      else if \<not> ok resp then Some (UploadFailed (SimpleFailed (resp_status resp)), tr2)
                      else Some (SimpleUploaded, tr2))))"
| "uploadFileMultipart 0 e u tr = None"
| "uploadFileMultipart (Suc n) e u tr =
     (case ui_file u of
        None \<Rightarrow> Some (NoFileSelected, tr)
      | Some (sz, ftype) \<Rightarrow>
          (case confirm_replace e u tr of
             (False, tr1) \<Rightarrow> Some (Cancelled, tr1)
           | (True, tr1) \<Rightarrow>
               if sz < CHUNK_SIZE then uploadFileSimple n e u tr1
               else
                 (case multipart_protocol e u sz ftype tr1 of
                    (Inl err, tr2) \<Rightarrow> Some (UploadFailed err, tr2)
                  | (Inr done, tr2) \<Rightarrow> Some (MultipartUploaded, tr2))))"

text \<open>
  What a trace says the backend acknowledged: for every part request answered with an ok
  response, in the order of the answers, the part number sent and the \<open>etag\<close> field of
  the answer.
\<close>

definition etag_of :: "response \<Rightarrow> string option" where
  "etag_of resp = (case resp_json resp of Unparsable \<Rightarrow> None | Obj u etag x \<Rightarrow> etag)"

fun stored_of :: "event \<Rightarrow> (nat \<times> string option) list" where
  "stored_of (Fetch (PutPart u k n s t) (Resp resp)) = (if ok resp then [(n, etag_of resp)] else [])"
| "stored_of ev = []"

definition stored_parts :: "trace \<Rightarrow> (nat \<times> string option) list" where
  "stored_parts tr = concat (map stored_of tr)"

text \<open>The events of phase 2: part requests and the sleeps between them.\<close>

fun part_event :: "event \<Rightarrow> bool" where
  "part_event (Fetch (PutPart u k n s t) r) = True"
| "part_event (Sleep ms) = True"
| "part_event ev = False"

text \<open>Concrete files and environments used to run the planner.\<close>

definition big_file :: ui where
  "big_file =
     \<lparr>ui_file = Some (12582912, ''video/mp4''), ui_replacingKey = Some ''a.bin'',
      ui_checkKey = ''a.bin'', ui_uploadKey = ''a.bin''\<rparr>"

definition three_mib_file :: ui where
  "three_mib_file =
     \<lparr>ui_file = Some (3145728, ''image/png''), ui_replacingKey = None,
      ui_checkKey = ''a.png'', ui_uploadKey = ''a.png''\<rparr>"

definition created :: fetch_result where
  "created = Resp (Response 200 (Obj (Some ''u1'') None False))"

definition absent :: fetch_result where
  "absent = Resp (Response 200 (Obj None None False))"

definition bad_request :: fetch_result where
  "bad_request = Resp (Response 400 (Obj None None False))"

definition unauthorized :: fetch_result where
  "unauthorized = Resp (Response 401 (Obj None None False))"

definition unavailable :: fetch_result where
  "unavailable = Resp (Response 503 Unparsable)"

definition stored :: "nat \<Rightarrow> fetch_result" where
  "stored n =
     Resp (Response 200 (Obj None
       (Some (if n = 1 then ''e1'' else if n = 2 then ''e2'' else ''e3'')) False))"

text \<open>Every part request is answered 400; create succeeds.\<close>

definition terminal_env :: env where
  "terminal_env =
     \<lparr>net = (\<lambda>tr c. case c of
                 CreateSession k t \<Rightarrow> created
               | PutPart u k n s t \<Rightarrow> bad_request
               | _ \<Rightarrow> absent),
      confirm = (\<lambda>tr. True),
      url_length = (\<lambda>u k n. 100)\<rparr>"

text \<open>Create is answered 401 with a JSON error body; every part request 400.\<close>

definition unauthorized_env :: env where
  "unauthorized_env =
     \<lparr>net = (\<lambda>tr c. case c of
                 CreateSession k t \<Rightarrow> unauthorized
               | PutPart u k n s t \<Rightarrow> bad_request
               | _ \<Rightarrow> absent),
      confirm = (\<lambda>tr. True),
      url_length = (\<lambda>u k n. 100)\<rparr>"

text \<open>The first request of each part is answered 503, the next one succeeds.\<close>

definition flaky_env :: env where
  "flaky_env =
     \<lparr>net = (\<lambda>tr c. case c of
                 CreateSession k t \<Rightarrow> created
               | PutPart u k n s t \<Rightarrow>
                   if Fetch c unavailable \<in> set tr then stored n else unavailable
               | _ \<Rightarrow> absent),
      confirm = (\<lambda>tr. True),
      url_length = (\<lambda>u k n. 100)\<rparr>"

text \<open>Every request succeeds at once; no object exists under the key.\<close>

definition happy_env :: env where
  "happy_env =
     \<lparr>net = (\<lambda>tr c. case c of
                 CreateSession k t \<Rightarrow> created
               | PutPart u k n s t \<Rightarrow> stored n
               | _ \<Rightarrow> absent),
      confirm = (\<lambda>tr. True),
      url_length = (\<lambda>u k n. 100)\<rparr>"

text \<open>Create succeeds; every part request is answered 503.\<close>

definition down_env :: env where
  "down_env =
     \<lparr>net = (\<lambda>tr c. case c of
                 CreateSession k t \<Rightarrow> created
               | PutPart u k n s t \<Rightarrow> unavailable
               | _ \<Rightarrow> absent),
      confirm = (\<lambda>tr. True),
      url_length = (\<lambda>u k n. 100)\<rparr>"

section \<open>The simple upload endpoint (server side)\<close>

text \<open>
  The string helpers the handler uses: \<open>trim\<close>, the removal of leading and trailing
  slashes (\<open>replace(/^\/+|\/+$/g, "")\<close>), the collapse of runs of slashes
  (\<open>replace(/\/+/g, "/")\<close>), and \<open>split(".").pop() || ""\<close>, the text after the last dot
  (the whole string when it has no dot).
\<close>

definition trim :: "string \<Rightarrow> string" where
  "trim s = rev (dropWhile is_ws (rev (dropWhile is_ws s)))"

definition strip_slashes :: "string \<Rightarrow> string" where
  "strip_slashes s =
     rev (dropWhile (\<lambda>c. c = CHR ''/'') (rev (dropWhile (\<lambda>c. c = CHR ''/'') s)))"

fun collapse_slashes :: "string \<Rightarrow> string" where
  "collapse_slashes (a # b # cs) =
     (if a = CHR ''/'' \<and> b = CHR ''/'' then collapse_slashes (b # cs)
      else a # collapse_slashes (b # cs))"
| "collapse_slashes cs = cs"

definition last_segment :: "string \<Rightarrow> string" where
  "last_segment s = rev (takeWhile (\<lambda>c. c \<noteq> CHR ''.'') (rev s))"

text \<open>
  The multipart form of an upload request: the \<open>file\<close> field when it is a \<open>File\<close> (its
  name, MIME type and bytes), and the optional \<open>key\<close> and \<open>folder\<close> fields.
\<close>

record upload_file =
  uf_name :: string
  uf_type :: string
  uf_bytes :: bytes

record upload_form =
  fd_file :: "upload_file option"
  fd_key :: "string option"
  fd_folder :: "string option"

record upload_request =
  up_method :: string
  up_authenticated :: bool
  up_bucket_bound :: bool
  up_form :: "upload_form option"

text \<open>Lines 38 to 75 of the handler: the key the object is stored under.\<close>

definition upload_filename :: "upload_file \<Rightarrow> string option \<Rightarrow> string option \<Rightarrow> string" where
  "upload_filename file customKey folder =
     (let folderPath = (if falsy folder then [] else the folder);
          normalizedFolder = collapse_slashes (strip_slashes (trim folderPath));
          folderPrefix = (if normalizedFolder \<noteq> [] then normalizedFolder @ ''/'' else []);
          fileExtension = last_segment (uf_name file)
      in if \<not> falsy customKey \<and> trim (the customKey) \<noteq> [] then
           (let customKeyTrimmed = trim (the customKey) in
            if str_includes customKeyTrimmed ''/'' then customKeyTrimmed
            else
              (let customKeyExt = last_segment customKeyTrimmed;
                   hasExtension = (str_includes customKeyTrimmed ''.''
                     \<and> length customKeyExt > 0
                     \<and> length customKeyExt < length customKeyTrimmed)
               in if \<not> hasExtension \<and> fileExtension \<noteq> []
                  then folderPrefix @ customKeyTrimmed @ ''.'' @ fileExtension
                  else folderPrefix @ customKeyTrimmed))
         else folderPrefix @ uf_name file)"

text \<open>
  The bucket is the external object store: its content is a map from keys to objects (bytes
  and content type). What \<open>bucket.put(key, file, options)\<close> does is the store's business,
  not the handler's, so it is a parameter: it throws, or resolves to \<open>null\<close>, or resolves
  to the stored object (of which the handler reads the key), and it leaves the bucket in
  some state.
\<close>

type_synonym bucket = "string \<rightharpoonup> bytes \<times> string"

datatype put_outcome = PutThrows | PutNull | PutObject string

type_synonym put_operation = "bucket \<Rightarrow> string \<Rightarrow> upload_file \<Rightarrow> put_outcome \<times> bucket"

text \<open>
  The handler: whatever the bucket holds, it calls \<open>put\<close> under the computed key with
  no precondition and no look-up before it. A \<open>null\<close> result is answered 500 by the check
  \<open>if (!object)\<close>, an exception 500 by the outer \<open>catch\<close>.
\<close>

definition POST_upload ::
  "put_operation \<Rightarrow> bucket \<Rightarrow> upload_request \<Rightarrow> (nat \<times> payload) \<times> bucket" where
  "POST_upload put b rq =
     (if up_method rq = ''OPTIONS'' then ((204, Cors), b)
      else if \<not> up_authenticated rq then (api_error ''Authentication required'' 401, b)
      else if \<not> up_bucket_bound rq then (api_error ''Cloud storage not configured'' 500, b)
      else
        (case up_form rq of
           None \<Rightarrow> (api_error ''Upload failed'' 500, b)
         | Some formData \<Rightarrow>
             (case fd_file formData of
                None \<Rightarrow> (api_error ''Missing or invalid file'' 400, b)
              | Some file \<Rightarrow>
                  (let filename = upload_filename file (fd_key formData) (fd_folder formData)
                   in case put b filename file of
                        (PutThrows, b') \<Rightarrow> (api_error ''Upload failed'' 500, b')
                      | (PutNull, b') \<Rightarrow> (api_error ''Failed to upload file'' 500, b')
                      | (PutObject k, b') \<Rightarrow>
                          (api_success
                             (Uploaded filename k (length (uf_bytes file)) (uf_type file)),
                           b')))))"

text \<open>
  The \<open>put\<close> of a key-value object store that is up: the object is stored under the key,
  in place of what was there (the handler's comment: \<open>this will replace existing file if
  key already exists\<close>). And a \<open>put\<close> that fails: it throws and stores nothing.
\<close>

definition kv_put :: put_operation where
  "kv_put b k file = (PutObject k, b(k \<mapsto> (uf_bytes file, uf_type file)))"

definition failing_put :: put_operation where
  "failing_put b k file = (PutThrows, b)"

definition report_upload :: upload_request where
  "report_upload =
     \<lparr>up_method = ''POST'', up_authenticated = True, up_bucket_bound = True,
      up_form = Some \<lparr>fd_file = Some \<lparr>uf_name = ''report.txt'', uf_type = ''text/plain'',
                                      uf_bytes = [110, 101, 119]\<rparr>,
                      fd_key = None, fd_folder = Some ''/docs//2024/''\<rparr>\<rparr>"

definition old_bucket :: bucket where
  "old_bucket = [''docs/2024/report.txt'' \<mapsto> ([111, 108, 100, 33], ''text/plain'')]"

text \<open>A small file, and an environment in which its key exists and the user declines.\<close>

definition small_file :: ui where
  "small_file =
     \<lparr>ui_file = Some (2048, ''text/plain''), ui_replacingKey = None,
      ui_checkKey = ''docs/2024/report.txt'', ui_uploadKey = ''docs/2024/report.txt''\<rparr>"

definition declining_env :: env where
  "declining_env =
     \<lparr>net = (\<lambda>tr c. Resp (Response 200 (Obj None None True))),
      confirm = (\<lambda>tr. False),
      url_length = (\<lambda>u k n. 100)\<rparr>"

text \<open>
  The failures the retry policy is about: a fetch that throws, and a response with status
  408, 429 or 500 and above.
\<close>

definition retryable_failure :: "fetch_result \<Rightarrow> bool" where
  "retryable_failure r =
     (case r of
        NetworkError \<Rightarrow> True
      | Resp resp \<Rightarrow>
          resp_status resp = 408 \<or> resp_status resp = 429 \<or> 500 \<le> resp_status resp)"

section \<open>Properties of the coordinator\<close>

lemma POST_requires_authentication:
  "rq_method rq \<noteq> ''OPTIONS'' \<Longrightarrow> \<not> rq_authenticated rq \<Longrightarrow>
   POST be rq = (api_error ''Authentication required'' 401, [])"
  by (simp add: POST_def)

lemma handleUploadPart_requires_authentication:
  "rq_method rq \<noteq> ''OPTIONS'' \<Longrightarrow> \<not> rq_authenticated rq \<Longrightarrow>
   handleUploadPart be rq = (api_error ''Authentication required'' 401, [])"
  by (simp add: handleUploadPart_def)

text \<open>
  C1. The claim: each of create, upload-part, complete and abort answers an
  unauthenticated caller with 401 before any bucket call. Create, complete and upload-part
  do (the two lemmas above); abort does not: \<open>DELETE\<close> never asks the login collaborator.
  For the unauthenticated request \<open>anonymous_abort\<close> it resumes the session and calls the
  bucket's abort primitive, whatever the backend answers, and its status is not 401.
\<close>

theorem DELETE_skips_authentication:
  "\<not> rq_authenticated anonymous_abort \<and>
   snd (DELETE be anonymous_abort) = [ResumeMultipartUpload ''a.bin'' ''u1'', AbortUpload] \<and>
   fst (fst (DELETE be anonymous_abort)) \<noteq> 401"
  by (simp add: DELETE_def anonymous_abort_def get_param_def falsy_def api_success_def
      api_error_def Let_def split: option.split)

lemma extract_params_query:
  assumes "extract_params rq = (uploadId, partNumberStr, key, consumed)"
  shows "(\<not> falsy (get_param (rq_query rq) ''uploadId'') \<longrightarrow>
            uploadId = get_param (rq_query rq) ''uploadId'')
       \<and> (\<not> falsy (get_param (rq_query rq) ''partNumber'') \<longrightarrow>
            partNumberStr = get_param (rq_query rq) ''partNumber'')
       \<and> (\<not> falsy (get_param (rq_query rq) ''key'') \<longrightarrow>
            key = get_param (rq_query rq) ''key'')"
  using assms
  by (auto simp: extract_params_def Let_def js_or_def split: if_splits option.splits)

lemma handleUploadPart_calls:
  assumes "extract_params rq = (uploadId, partNumberStr, key, consumed)"
    and "c \<in> set (snd (handleUploadPart be rq))"
  shows "\<exists>k u s n. key = Some k \<and> uploadId = Some u \<and> partNumberStr = Some s
          \<and> parseInt s = Some n \<and> 1 \<le> n
          \<and> (c = ResumeMultipartUpload k u \<or> (\<exists>b. c = UploadPart n b))"
  using assms
  by (auto simp: handleUploadPart_def falsy_def split: if_splits option.splits sum.splits)

text \<open>
  C4, as the claim states it, fails: \<open>mixed_part_request\<close> carries \<open>uploadId\<close> both in the
  query string (\<open>fromQuery\<close>) and in its form body (\<open>fromBody\<close>), and the session the
  coordinator resumes is the one named in the query string, not the one named in the body.
\<close>

theorem body_field_preferred_counterexample:
  "get_param (rq_query mixed_part_request) ''uploadId'' = Some ''fromQuery'' \<and>
   get_param (the (rq_form mixed_part_request)) ''uploadId'' = Some ''fromBody'' \<and>
   ResumeMultipartUpload ''a.bin'' ''fromQuery''
     \<in> set (snd (handleUploadPart accepting_backend mixed_part_request)) \<and>
   ResumeMultipartUpload ''a.bin'' ''fromBody''
     \<notin> set (snd (handleUploadPart accepting_backend mixed_part_request))"
  by (simp add: handleUploadPart_def extract_params_def mixed_part_request_def get_param_def
      falsy_def js_or_def parseInt_def is_ws_def digit_val_def accepting_backend_def)

text \<open>
  C4, amended. For every upload-part request, each of session id, part number and key that
  the query string carries with a non-empty value is taken from the query string, whatever
  the body holds; the session the handler resumes and the part number it stores are the
  ones so extracted.
\<close>

theorem upload_part_prefers_query:
  assumes "extract_params rq = (uploadId, partNumberStr, key, consumed)"
  shows "(\<not> falsy (get_param (rq_query rq) ''uploadId'') \<longrightarrow>
            uploadId = get_param (rq_query rq) ''uploadId'')
       \<and> (\<not> falsy (get_param (rq_query rq) ''partNumber'') \<longrightarrow>
            partNumberStr = get_param (rq_query rq) ''partNumber'')
       \<and> (\<not> falsy (get_param (rq_query rq) ''key'') \<longrightarrow>
            key = get_param (rq_query rq) ''key'')
       \<and> (\<forall>k u. ResumeMultipartUpload k u \<in> set (snd (handleUploadPart be rq)) \<longrightarrow>
            key = Some k \<and> uploadId = Some u)
       \<and> (\<forall>n b. UploadPart n b \<in> set (snd (handleUploadPart be rq)) \<longrightarrow>
            parseInt (the partNumberStr) = Some n)"
  using extract_params_query[OF assms] handleUploadPart_calls[OF assms, of _ be]
  by fastforce

theorem upload_part_prefers_query_witness:
  "extract_params mixed_part_request = (Some ''fromQuery'', Some ''1'', Some ''a.bin'', True) \<and>
   get_param (rq_query mixed_part_request) ''uploadId'' = Some ''fromQuery'' \<and>
   get_param (rq_query mixed_part_request) ''partNumber'' = Some ''1'' \<and>
   get_param (rq_query mixed_part_request) ''key'' = None \<and>
   ResumeMultipartUpload ''a.bin'' ''fromQuery''
     \<in> set (snd (handleUploadPart accepting_backend mixed_part_request))"
proof -
  have e: "extract_params mixed_part_request =
      (Some ''fromQuery'', Some ''1'', Some ''a.bin'', True)"
    by (simp add: extract_params_def mixed_part_request_def get_param_def falsy_def js_or_def)
  have r: "ResumeMultipartUpload ''a.bin'' ''fromQuery''
     \<in> set (snd (handleUploadPart accepting_backend mixed_part_request))"
    by (simp add: handleUploadPart_def e falsy_def parseInt_def is_ws_def digit_val_def)
      (simp add: mixed_part_request_def get_param_def)
  show ?thesis
    using upload_part_prefers_query[OF e, of accepting_backend] e r
    by (simp add: mixed_part_request_def get_param_def falsy_def)
qed

text \<open>
  C5, as the claim states it, fails: \<open>parseInt\<close> reads the leading digits of \<open>2.5\<close> and
  ignores the rest, so the request is accepted and the bytes are stored as part 2.
\<close>

theorem fractional_part_number_counterexample:
  "get_param (rq_query fractional_part_request) ''partNumber'' = Some ''2.5'' \<and>
   handleUploadPart accepting_backend fractional_part_request =
     ((200, PartStored 2 ''etag''),
      [ResumeMultipartUpload ''a.bin'' ''u1'', UploadPart 2 [1, 2, 3]])"
  by (simp add: handleUploadPart_def extract_params_def fractional_part_request_def
      get_param_def falsy_def js_or_def parseInt_def is_ws_def digit_val_def
      accepting_backend_def api_success_def)

text \<open>
  C5, amended. A part reaches the backend's \<open>uploadPart\<close> primitive only with a number
  \<open>n \<ge> 1\<close> that \<open>parseInt\<close> reads from the part-number string (its leading integer,
  whatever follows it); and an authenticated upload-part request with all three parameters
  whose part-number string \<open>parseInt\<close> reads as \<open>NaN\<close> or as less than 1 is answered with
  400 before any bucket call.
\<close>

theorem upload_part_number_validated:
  "(UploadPart n b \<in> set (snd (handleUploadPart be rq)) \<longrightarrow>
      (\<exists>s. fst (snd (extract_params rq)) = Some s \<and> parseInt s = Some n \<and> 1 \<le> n))
   \<and> (rq_method rq \<noteq> ''OPTIONS'' \<and> rq_authenticated rq \<and> rq_bucket_bound rq
       \<and> get_param (rq_query rq) ''action'' = Some ''upload-part''
       \<and> \<not> falsy (fst (extract_params rq)) \<and> \<not> falsy (fst (snd (snd (extract_params rq))))
       \<and> fst (snd (extract_params rq)) = Some s \<and> s \<noteq> []
       \<and> (parseInt s = None \<or> (\<exists>m. parseInt s = Some m \<and> m < 1)) \<longrightarrow>
      handleUploadPart be rq = (api_error ''Invalid part number'' 400, []))"
proof (intro conjI impI)
  assume u: "UploadPart n b \<in> set (snd (handleUploadPart be rq))"
  obtain uploadId partNumberStr key consumed
    where e: "extract_params rq = (uploadId, partNumberStr, key, consumed)"
    by (cases "extract_params rq") auto
  from handleUploadPart_calls[OF e u]
  show "\<exists>s. fst (snd (extract_params rq)) = Some s \<and> parseInt s = Some n \<and> 1 \<le> n"
    by (auto simp: e)
next
  assume a: "rq_method rq \<noteq> ''OPTIONS'' \<and> rq_authenticated rq \<and> rq_bucket_bound rq
       \<and> get_param (rq_query rq) ''action'' = Some ''upload-part''
       \<and> \<not> falsy (fst (extract_params rq)) \<and> \<not> falsy (fst (snd (snd (extract_params rq))))
       \<and> fst (snd (extract_params rq)) = Some s \<and> s \<noteq> []
       \<and> (parseInt s = None \<or> (\<exists>m. parseInt s = Some m \<and> m < 1))"
  obtain uploadId partNumberStr key consumed
    where e: "extract_params rq = (uploadId, partNumberStr, key, consumed)"
    by (cases "extract_params rq") auto
  from a show "handleUploadPart be rq = (api_error ''Invalid part number'' 400, [])"
    by (auto simp: handleUploadPart_def e falsy_def split: option.splits)
qed

theorem upload_part_number_validated_witness:
  "UploadPart 2 [1, 2, 3] \<in> set (snd (handleUploadPart accepting_backend fractional_part_request))
   \<and> parseInt ''2.5'' = Some 2
   \<and> parseInt ''0'' = Some 0
   \<and> handleUploadPart accepting_backend zero_part_request =
       (api_error ''Invalid part number'' 400, [])"
proof -
  have e1: "extract_params fractional_part_request =
      (Some ''u1'', Some ''2.5'', Some ''a.bin'', False)"
    by (simp add: extract_params_def fractional_part_request_def get_param_def falsy_def)
  have e2: "extract_params zero_part_request = (Some ''u1'', Some ''0'', Some ''a.bin'', False)"
    by (simp add: extract_params_def zero_part_request_def get_param_def falsy_def)
  have p1: "parseInt ''2.5'' = Some 2" and p2: "parseInt ''0'' = Some 0"
    by (simp_all add: parseInt_def is_ws_def digit_val_def)
  have u: "UploadPart 2 [1, 2, 3]
      \<in> set (snd (handleUploadPart accepting_backend fractional_part_request))"
    by (simp add: handleUploadPart_def e1 p1 falsy_def accepting_backend_def)
      (simp add: fractional_part_request_def get_param_def)
  have z: "rq_method zero_part_request \<noteq> ''OPTIONS'' \<and> rq_authenticated zero_part_request
      \<and> rq_bucket_bound zero_part_request
      \<and> get_param (rq_query zero_part_request) ''action'' = Some ''upload-part''"
    by (simp add: zero_part_request_def get_param_def)
  show ?thesis
    using upload_part_number_validated[of 2 "[1, 2, 3]" accepting_backend
        fractional_part_request "''2.5''"]
      upload_part_number_validated[of 2 "[1, 2, 3]" accepting_backend
        zero_part_request "''0''"] u z p1 p2
    by (simp add: e1 e2 falsy_def)
qed

section \<open>Properties of the planner\<close>

lemma ceil_div_nat_cases:
  assumes "0 < (b::nat)"
  shows "(a + b - 1) div b = (if a mod b = 0 then a div b else a div b + 1)"
proof -
  define q where "q = a div b"
  define r where "r = a mod b"
  have a: "a = b * q + r" and r: "r < b"
    using assms by (simp_all add: q_def r_def)
  show ?thesis
  proof (cases "r = 0")
    case True
    have "b * q \<le> a + b - 1" "a + b - 1 < b * Suc q"
      using a True assms by simp_all
    then have "(a + b - 1) div b = q" by (rule div_nat_eqI)
    then show ?thesis using True by (simp add: q_def r_def)
  next
    case False
    have "b * (q + 1) \<le> a + b - 1" "a + b - 1 < b * Suc (q + 1)"
      using a False r assms by simp_all
    then have "(a + b - 1) div b = q + 1" by (rule div_nat_eqI)
    then show ?thesis using False by (simp add: q_def r_def)
  qed
qed

lemma ceil_nat_div:
  assumes "0 < (b::nat)"
  shows "nat \<lceil>real a / real b\<rceil> = (a + b - 1) div b"
proof -
  have "\<lceil>real a / real b\<rceil> = - (- int a div int b)"
    using ceiling_divide_eq_div[of "int a" "int b", where ?'a = real] by simp
  also have "\<dots> = (if int a mod int b = 0 then int a div int b else int a div int b + 1)"
    using assms by (simp add: zdiv_zminus1_eq_if)
  also have "\<dots> = int (if a mod b = 0 then a div b else a div b + 1)"
    by (simp flip: of_nat_mod of_nat_div)
  finally have "\<lceil>real a / real b\<rceil> = int ((a + b - 1) div b)"
    by (simp only: ceil_div_nat_cases[OF assms, of a])
  then show ?thesis by (simp only: nat_int)
qed

lemma totalParts_div: "totalParts sz = (sz + CHUNK_SIZE - 1) div CHUNK_SIZE"
  unfolding totalParts_def by (rule ceil_nat_div) (simp add: CHUNK_SIZE_def)

lemma stored_parts_append [simp]: "stored_parts (a @ b) = stored_parts a @ stored_parts b"
  by (simp add: stored_parts_def)

lemma stored_parts_Nil [simp]: "stored_parts [] = []"
  by (simp add: stored_parts_def)

lemma stored_parts_Cons [simp]: "stored_parts (ev # tr) = stored_of ev @ stored_parts tr"
  by (simp add: stored_parts_def)

lemma classify_Succeeded: "classify r = Succeeded resp \<longleftrightarrow> r = Resp resp \<and> ok resp"
  by (auto simp: classify_def split: fetch_result.splits if_splits)

lemma classify_Retryable: "classify r = Retryable resp \<Longrightarrow> r = Resp resp \<and> \<not> ok resp"
  by (auto simp: classify_def split: fetch_result.splits if_splits)

lemma classify_Threw: "classify r = Threw err \<Longrightarrow> (case r of NetworkError \<Rightarrow> True | Resp resp \<Rightarrow> \<not> ok resp)"
  by (auto simp: classify_def split: fetch_result.splits if_splits)

lemma retry_loop_trace:
  assumes "\<forall>resp. prev = Some resp \<longrightarrow> \<not> ok resp"
    and "retry_loop e (PutPart u k n s t) pn retries prev tr = (res, tr')"
  shows "\<exists>new. tr' = tr @ new \<and> list_all part_event new \<and>
           stored_parts new =
             (case res of
                Inr (Some resp) \<Rightarrow> if ok resp then [(n, etag_of resp)] else []
              | _ \<Rightarrow> [])"
  using assms
proof (induction retries arbitrary: prev tr)
  case 0
  then show ?case by (auto split: option.splits)
next
  case (Suc retries)
  let ?c = "PutPart u k n s t"
  let ?r = "net e tr ?c"
  let ?tr1 = "tr @ [Fetch ?c ?r]"
  show ?case
  proof (cases "classify ?r")
    case (Succeeded resp)
    then have r: "?r = Resp resp" "ok resp" by (simp_all add: classify_Succeeded)
    from Suc.prems(2) Succeeded have "res = Inr (Some resp)" "tr' = ?tr1"
      by (simp_all add: fetch_def)
    then show ?thesis using r by simp
  next
    case (Retryable resp)
    then have r: "?r = Resp resp" "\<not> ok resp" using classify_Retryable by blast+
    have st: "stored_of (Fetch ?c ?r) = []" using r by simp
    show ?thesis
    proof (cases "retries > 0")
      case True
      let ?tr2 = "?tr1 @ [Sleep (1000 * (4 - int retries))]"
      from Suc.prems(2) Retryable True
      have "retry_loop e ?c pn retries (Some resp) ?tr2 = (res, tr')"
        by (simp add: fetch_def)
      from Suc.IH[OF _ this] r obtain new where
        "tr' = ?tr2 @ new" "list_all part_event new"
        "stored_parts new =
             (case res of
                Inr (Some resp) \<Rightarrow> if ok resp then [(n, etag_of resp)] else []
              | _ \<Rightarrow> [])"
        by auto
      then show ?thesis using st
        by (intro exI[of _ "[Fetch ?c ?r, Sleep (1000 * (4 - int retries))] @ new"]) simp
    next
      case False
      from Suc.prems(2) Retryable False
      have "retry_loop e ?c pn retries (Some resp) ?tr1 = (res, tr')"
        by (simp add: fetch_def)
      from Suc.IH[OF _ this] r obtain new where
        "tr' = ?tr1 @ new" "list_all part_event new"
        "stored_parts new =
             (case res of
                Inr (Some resp) \<Rightarrow> if ok resp then [(n, etag_of resp)] else []
              | _ \<Rightarrow> [])"
        by auto
      then show ?thesis using st
        by (intro exI[of _ "[Fetch ?c ?r] @ new"]) simp
    qed
  next
    case (Threw err)
    have st: "stored_of (Fetch ?c ?r) = []"
      using classify_Threw[OF Threw] by (cases ?r) simp_all
    show ?thesis
    proof (cases "retries = 0")
      case True
      from Suc.prems(2) Threw True have "res = Inl (FailedAfterRetries pn err)" "tr' = ?tr1"
        by (simp_all add: fetch_def)
      then show ?thesis using st by simp
    next
      case False
      let ?tr2 = "?tr1 @ [Sleep (1000 * (4 - int retries))]"
      let ?prev = "case ?r of NetworkError \<Rightarrow> prev | Resp resp \<Rightarrow> Some resp"
      have p: "\<forall>resp. ?prev = Some resp \<longrightarrow> \<not> ok resp"
        using classify_Threw[OF Threw] Suc.prems(1) by (cases ?r) simp_all
      from Suc.prems(2) Threw False
      have "retry_loop e ?c pn retries ?prev ?tr2 = (res, tr')"
        by (simp add: fetch_def)
      from Suc.IH[OF p this] obtain new where
        "tr' = ?tr2 @ new" "list_all part_event new"
        "stored_parts new =
             (case res of
                Inr (Some resp) \<Rightarrow> if ok resp then [(n, etag_of resp)] else []
              | _ \<Rightarrow> [])"
        by auto
      then show ?thesis using st
        by (intro exI[of _ "[Fetch ?c ?r, Sleep (1000 * (4 - int retries))] @ new"]) simp
    qed
  qed
qed


lemma upload_parts_step:
  assumes "i < totalParts sz"
    and "\<not> (\<not> isLastPart sz i \<and> blob_size sz i < CHUNK_SIZE)"
    and "\<not> 15000 < url_length e uid key (i + 1)"
    and "retry_loop e (PutPart uid key (i + 1) (part_start i) (part_end sz i)) (i + 1) 3 None tr
          = (Inr (Some resp), tr1)"
    and "ok resp" and "resp_json resp = Obj u etag x"
  shows "upload_parts e sz uid key i acc tr
          = upload_parts e sz uid key (i + 1) (acc @ [(i + 1, etag)]) tr1"
  by (subst upload_parts.simps) (simp only: assms if_True if_False prod.case sum.case
      option.case json_reply.case not_not simp_thms)

lemma upload_parts_trace:
  assumes "upload_parts e sz uid key i acc tr = (res, tr')"
  shows "\<exists>new. tr' = tr @ new \<and> list_all part_event new \<and>
           (\<forall>parts. res = Inr parts \<longrightarrow>
              parts = acc @ stored_parts new \<and>
              map fst (stored_parts new) = [Suc i..<Suc (totalParts sz)])"
  using assms
proof (induction e sz uid key i acc tr arbitrary: res tr' rule: upload_parts.induct)
  case (1 e sz uid key i acc tr)
  let ?c = "PutPart uid key (i + 1) (part_start i) (part_end sz i)"
  note run = "1.prems"[unfolded upload_parts.simps[of e sz uid key i acc tr]]
  show ?case
  proof (cases "i < totalParts sz")
    case False
    with run have "res = Inr acc" "tr' = tr" by simp_all
    with False show ?thesis by simp
  next
    case inside: True
    show ?thesis
    proof (cases "(\<not> isLastPart sz i \<and> blob_size sz i < CHUNK_SIZE)
        \<or> 15000 < url_length e uid key (i + 1)")
      case True
      with run inside have "tr' = tr" "\<exists>err. res = Inl err"
        by (auto split: if_splits)
      then show ?thesis by auto
    next
      case guards: False
      obtain rres tr1 where rl: "retry_loop e ?c (i + 1) 3 None tr = (rres, tr1)"
        by (cases "retry_loop e ?c (i + 1) 3 None tr") auto
      from retry_loop_trace[OF _ rl] obtain new1 where new1:
        "tr1 = tr @ new1" "list_all part_event new1"
        "stored_parts new1 =
           (case rres of
              Inr (Some resp) \<Rightarrow> if ok resp then [(i + 1, etag_of resp)] else []
            | _ \<Rightarrow> [])"
        by auto
      show ?thesis
      proof (cases "\<exists>resp u etag x. rres = Inr (Some resp) \<and> ok resp
          \<and> resp_json resp = Obj u etag x")
        case False
        with run inside guards rl have "tr' = tr1" "\<exists>err. res = Inl err"
          by (auto split: sum.splits option.splits json_reply.splits if_splits)
        with new1 show ?thesis by auto
      next
        case True
        then obtain resp u etag x where ok:
          "rres = Inr (Some resp)" "ok resp" "resp_json resp = Obj u etag x"
          by blast
        from guards have g: "\<not> (\<not> isLastPart sz i \<and> blob_size sz i < CHUNK_SIZE)"
          "\<not> 15000 < url_length e uid key (i + 1)" by auto
        have rec: "upload_parts e sz uid key (i + 1) (acc @ [(i + 1, etag)]) tr1 = (res, tr')"
          using upload_parts_step[OF inside g rl[unfolded ok(1)] ok(2,3), of acc] "1.prems"
          by simp
        from "1.IH"[OF inside g rl[symmetric] ok(1) refl _ ok(3) rec] ok(2)
        obtain new2 where new2:
          "tr' = tr1 @ new2" "list_all part_event new2"
          "\<forall>parts. res = Inr parts \<longrightarrow>
              parts = (acc @ [(i + 1, etag)]) @ stored_parts new2 \<and>
              map fst (stored_parts new2) = [Suc (i + 1)..<Suc (totalParts sz)]"
          by auto
        have e: "etag_of resp = etag" using ok(3) by (simp add: etag_of_def)
        have s1: "stored_parts new1 = [(i + 1, etag)]" using new1(3) ok e by simp
        have up: "[Suc i..<Suc (totalParts sz)] = Suc i # [Suc (Suc i)..<Suc (totalParts sz)]"
          using inside by (simp add: upt_conv_Cons)
        show ?thesis
          using new1(1,2) new2 s1 up
          by (intro exI[of _ "new1 @ new2"]) simp
      qed
    qed
  qed
qed


lemma CHUNK_SIZE_pos: "0 < CHUNK_SIZE"
  by (simp add: CHUNK_SIZE_def)

lemma totalParts_upper: "sz \<le> totalParts sz * CHUNK_SIZE"
proof -
  have "sz + CHUNK_SIZE - 1 < (totalParts sz + 1) * CHUNK_SIZE"
    unfolding totalParts_div using CHUNK_SIZE_pos
    by (metis Suc_eq_plus1 dividend_less_div_times mult.commute mult_Suc_right add.commute mult_Suc)
  then show ?thesis using CHUNK_SIZE_pos by simp
qed

lemma totalParts_lower:
  assumes "n < totalParts sz"
  shows "n * CHUNK_SIZE < sz"
proof -
  have "Suc n \<le> (sz + CHUNK_SIZE - 1) div CHUNK_SIZE"
    using assms by (simp add: totalParts_div)
  then have "Suc n * CHUNK_SIZE \<le> sz + CHUNK_SIZE - 1"
    using CHUNK_SIZE_pos by (simp add: less_eq_div_iff_mult_less_eq)
  then show ?thesis using CHUNK_SIZE_pos by simp
qed

lemma non_final_full:
  assumes "Suc i < totalParts sz"
  shows "blob_size sz i = CHUNK_SIZE"
proof -
  have "Suc i * CHUNK_SIZE < sz" using totalParts_lower[OF assms] .
  then show ?thesis
    by (simp add: blob_size_def slice_size_def part_start_def part_end_def mult.commute min_def)
qed

lemma final_rest:
  assumes "Suc i = totalParts sz"
  shows "blob_size sz i = sz - i * CHUNK_SIZE" and "i * CHUNK_SIZE < sz"
proof -
  have lo: "i * CHUNK_SIZE < sz" using totalParts_lower[of i sz] assms by simp
  have hi: "sz \<le> Suc i * CHUNK_SIZE" using totalParts_upper[of sz] assms by simp
  show "i * CHUNK_SIZE < sz" by (rule lo)
  show "blob_size sz i = sz - i * CHUNK_SIZE"
    using lo hi by (simp add: blob_size_def slice_size_def part_start_def part_end_def
        mult.commute min_def)
qed

lemma isLastPart_iff: "i < totalParts sz \<Longrightarrow> isLastPart sz i \<longleftrightarrow> Suc i = totalParts sz"
  by (auto simp: isLastPart_def)

lemma minimum_guard_never_fires:
  assumes "i < totalParts sz"
  shows "\<not> (\<not> isLastPart sz i \<and> blob_size sz i < CHUNK_SIZE)"
proof (cases "Suc i = totalParts sz")
  case True
  then show ?thesis using assms by (simp add: isLastPart_iff)
next
  case False
  with assms have "Suc i < totalParts sz" by simp
  then show ?thesis by (simp add: non_final_full)
qed

lemma blob_sizes_sum: "(\<Sum>i<totalParts sz. blob_size sz i) = sz"
proof (cases "totalParts sz")
  case 0
  then have "sz = 0" using totalParts_upper[of sz] by simp
  with 0 show ?thesis by simp
next
  case (Suc m)
  have "(\<Sum>i<m. blob_size sz i) = (\<Sum>i<m. CHUNK_SIZE)"
    by (rule sum.cong) (simp_all add: non_final_full Suc)
  then have "(\<Sum>i<m. blob_size sz i) = m * CHUNK_SIZE" by simp
  moreover have "blob_size sz m = sz - m * CHUNK_SIZE" "m * CHUNK_SIZE < sz"
    using final_rest[of m sz] Suc by simp_all
  ultimately show ?thesis using Suc by simp
qed

lemma retry_loop_error:
  "retry_loop e c pn retries prev tr = (Inl err, tr') \<Longrightarrow> \<exists>x. err = FailedAfterRetries pn x"
proof (induction retries arbitrary: prev tr)
  case 0
  then show ?case by simp
next
  case (Suc retries)
  then show ?case
    by (auto simp: fetch_def split: attempt.splits if_splits)
qed

lemma never_below_minimum:
  "fst (upload_parts e sz uid key i acc tr) \<noteq> Inl (PartBelowMinimum n)"
proof (induction e sz uid key i acc tr rule: upload_parts.induct)
  case (1 e sz uid key i acc tr)
  show ?case
  proof (cases "i < totalParts sz")
    case False
    then show ?thesis by (subst upload_parts.simps) simp
  next
    case True
    note g = minimum_guard_never_fires[OF True]
    show ?thesis
      using "1.IH"[OF True g] True g
      by (subst upload_parts.simps)
        (auto split: sum.splits option.splits json_reply.splits prod.splits
          dest: retry_loop_error)
  qed
qed

lemma totalParts_12MiB: "totalParts 12582912 = 3"
  by (simp add: totalParts_div CHUNK_SIZE_def)

lemmas plan_defs = isLastPart_def blob_size_def slice_size_def part_start_def part_end_def
  CHUNK_SIZE_def

lemmas result_defs = created_def absent_def bad_request_def unauthorized_def unavailable_def
  stored_def

lemma big_file_facts:
  "ui_file big_file = Some (12582912, ''video/mp4'')"
  "confirm_replace e big_file tr = (True, tr)"
  "multipartKey big_file = ''a.bin''"
  by (simp_all add: big_file_def confirm_replace_def multipartKey_def falsy_def)

text \<open>
  C7. The claim: a file smaller than the chunk size leaves the multipart path for the
  single-shot path, which uploads it, and the dispatch between the two paths terminates.
  For a 3 MiB file it does not: \<open>uploadFileMultipart\<close> hands the file to
  \<open>uploadFileSimple\<close> because it is below 5 MiB, and \<open>uploadFileSimple\<close> hands it back
  because it is above 1 MiB. Whatever the bound on the nesting, neither function returns.
\<close>

theorem mid_size_dispatch_never_returns:
  "uploadFileMultipart n happy_env three_mib_file tr = None
   \<and> uploadFileSimple n happy_env three_mib_file tr = None"
proof (induction n arbitrary: tr)
  case 0
  show ?case by simp
next
  case (Suc n)
  have f: "ui_file three_mib_file = Some (3145728, ''image/png'')"
    by (simp add: three_mib_file_def)
  have c: "confirm_replace happy_env three_mib_file tr
      = (True, tr @ [Fetch (CheckAsset ''a.png'') absent])"
    by (simp add: confirm_replace_def three_mib_file_def finalKey_def falsy_def fetch_def
        happy_env_def absent_def ok_def)
  show ?case
    using Suc[of tr] Suc[of "tr @ [Fetch (CheckAsset ''a.png'') absent]"]
    by (simp add: f c CHUNK_SIZE_def FILE_SIZE_THRESHOLD_def)
qed

text \<open>
  C2. The claim: a part answered with a 4xx other than 408 and 429 is not fetched again.
  The error thrown for such a status is thrown inside the \<open>try\<close> whose \<open>catch\<close> retries:
  with every part request answered 400, part 1 is fetched three times, with the waits of
  the retry policy, before the upload fails. No later part is requested.
\<close>

theorem terminal_error_is_retried:
  "uploadFileMultipart 1 terminal_env big_file [] =
     Some (UploadFailed (FailedAfterRetries 1 (NotRetryable 400)),
       [Fetch (CreateSession ''a.bin'' ''video/mp4'') created,
        Fetch (PutPart (Some ''u1'') ''a.bin'' 1 0 5242880) bad_request,
        Sleep 2000,
        Fetch (PutPart (Some ''u1'') ''a.bin'' 1 0 5242880) bad_request,
        Sleep 3000,
        Fetch (PutPart (Some ''u1'') ''a.bin'' 1 0 5242880) bad_request])"
proof -
  have n: "net terminal_env tr (PutPart u k n s t) = bad_request"
    "net terminal_env tr (CreateSession k ft) = created"
    "url_length terminal_env u k n = 100" for tr u k n s t ft
    by (simp_all add: terminal_env_def)
  have cl: "classify bad_request = Threw (NotRetryable 400)"
    by (simp add: classify_def bad_request_def ok_def)
  have r: "retry_loop terminal_env (PutPart (Some ''u1'') ''a.bin'' (Suc 0) 0 5242880) (Suc 0)
        3 None tr =
      (Inl (FailedAfterRetries (Suc 0) (NotRetryable 400)),
       tr @ [Fetch (PutPart (Some ''u1'') ''a.bin'' (Suc 0) 0 5242880) bad_request,
        Sleep 2000,
        Fetch (PutPart (Some ''u1'') ''a.bin'' (Suc 0) 0 5242880) bad_request,
        Sleep 3000,
        Fetch (PutPart (Some ''u1'') ''a.bin'' (Suc 0) 0 5242880) bad_request])" for tr
    by (simp add: numeral_3_eq_3 fetch_def n cl)
  have p: "upload_parts terminal_env 12582912 (Some ''u1'') ''a.bin'' 0 [] tr =
      (Inl (FailedAfterRetries (Suc 0) (NotRetryable 400)),
       tr @ [Fetch (PutPart (Some ''u1'') ''a.bin'' (Suc 0) 0 5242880) bad_request,
        Sleep 2000,
        Fetch (PutPart (Some ''u1'') ''a.bin'' (Suc 0) 0 5242880) bad_request,
        Sleep 3000,
        Fetch (PutPart (Some ''u1'') ''a.bin'' (Suc 0) 0 5242880) bad_request])" for tr
    by (subst upload_parts.simps) (simp add: totalParts_12MiB plan_defs n r)
  have m: "multipart_protocol terminal_env big_file 12582912 ''video/mp4'' [] =
      (Inl (FailedAfterRetries (Suc 0) (NotRetryable 400)),
       [Fetch (CreateSession ''a.bin'' ''video/mp4'') created,
        Fetch (PutPart (Some ''u1'') ''a.bin'' (Suc 0) 0 5242880) bad_request,
        Sleep 2000,
        Fetch (PutPart (Some ''u1'') ''a.bin'' (Suc 0) 0 5242880) bad_request,
        Sleep 3000,
        Fetch (PutPart (Some ''u1'') ''a.bin'' (Suc 0) 0 5242880) bad_request])"
    by (simp add: multipart_protocol_def fetch_def n big_file_facts created_def p)
  show ?thesis
    by (simp add: big_file_facts CHUNK_SIZE_def m)
qed

lemma classify_results:
  "classify bad_request = Threw (NotRetryable 400)"
  "classify unavailable = Retryable (Response 503 Unparsable)"
  "classify (stored n) = Succeeded (Response 200 (Obj None
       (Some (if n = 1 then ''e1'' else if n = 2 then ''e2'' else ''e3'')) False))"
  by (simp_all add: classify_def bad_request_def unavailable_def stored_def ok_def)

lemma multipart_protocol_trace:
  assumes "multipart_protocol e u sz ftype tr = (res, tr')"
  shows "\<exists>r0 new. list_all part_event new \<and>
           ((\<exists>err. res = Inl err) \<and> tr' = tr @ Fetch (CreateSession (multipartKey u) ftype) r0 # new
            \<or> map fst (stored_parts new) = [1..<Suc (totalParts sz)] \<and>
              (\<exists>uploadId r. tr' = tr @ Fetch (CreateSession (multipartKey u) ftype) r0 # new
                 @ [Fetch (CompleteSession uploadId (multipartKey u) (stored_parts new)) r]))"
proof -
  let ?c0 = "CreateSession (multipartKey u) ftype"
  let ?r0 = "net e tr ?c0"
  let ?tr1 = "tr @ [Fetch ?c0 ?r0]"
  show ?thesis
  proof (cases "\<exists>resp uploadId t x. ?r0 = Resp resp \<and> resp_json resp = Obj uploadId t x")
    case False
    with assms have "tr' = ?tr1" "\<exists>err. res = Inl err"
      by (auto simp: multipart_protocol_def fetch_def
          split: fetch_result.splits json_reply.splits)
    then show ?thesis by (intro exI[of _ ?r0] exI[of _ "[]"]) simp
  next
    case True
    then obtain resp uploadId t x where r0: "?r0 = Resp resp" "resp_json resp = Obj uploadId t x"
      by blast
    obtain pres tr2 where up: "upload_parts e sz uploadId (multipartKey u) 0 [] ?tr1 = (pres, tr2)"
      by (cases "upload_parts e sz uploadId (multipartKey u) 0 [] ?tr1") auto
    from upload_parts_trace[OF up] obtain new where new:
      "tr2 = ?tr1 @ new" "list_all part_event new"
      "\<forall>parts. pres = Inr parts \<longrightarrow>
          parts = [] @ stored_parts new \<and>
          map fst (stored_parts new) = [Suc 0..<Suc (totalParts sz)]"
      by blast
    show ?thesis
    proof (cases pres)
      case (Inl err)
      with assms r0 up have "tr' = tr2" "res = Inl err"
        by (simp_all add: multipart_protocol_def fetch_def)
      with new show ?thesis by (intro exI[of _ ?r0] exI[of _ new]) simp
    next
      case (Inr parts)
      with new have parts: "parts = stored_parts new"
        "map fst (stored_parts new) = [1..<Suc (totalParts sz)]" by simp_all
      let ?c3 = "CompleteSession uploadId (multipartKey u) parts"
      from assms r0 up Inr have "tr' = tr2 @ [Fetch ?c3 (net e tr2 ?c3)]"
        by (auto simp: multipart_protocol_def fetch_def
            split: fetch_result.splits json_reply.splits if_splits)
      with new parts show ?thesis
        by (intro exI[of _ ?r0] exI[of _ new]) auto
    qed
  qed
qed



lemma happy_net:
  "net happy_env tr (PutPart u k n s t) = stored n"
  "net happy_env tr (CreateSession k ft) = created"
  "net happy_env tr (CompleteSession u k ps) = absent"
  "url_length happy_env u k n = 100"
  by (simp_all add: happy_env_def)

lemma happy_run:
  "multipart_protocol happy_env big_file 12582912 ''video/mp4'' [] =
     (Inr (),
      [Fetch (CreateSession ''a.bin'' ''video/mp4'') created,
       Fetch (PutPart (Some ''u1'') ''a.bin'' 1 0 5242880) (stored 1),
       Fetch (PutPart (Some ''u1'') ''a.bin'' 2 5242880 10485760) (stored 2),
       Fetch (PutPart (Some ''u1'') ''a.bin'' 3 10485760 12582912) (stored 3),
       Fetch (CompleteSession (Some ''u1'') ''a.bin''
                [(1, Some ''e1''), (2, Some ''e2''), (3, Some ''e3'')]) absent])"
proof -
  have r: "retry_loop happy_env (PutPart u k n s t) pn 3 None tr =
      (Inr (Some (Response 200 (Obj None
         (Some (if n = 1 then ''e1'' else if n = 2 then ''e2'' else ''e3'')) False))),
       tr @ [Fetch (PutPart u k n s t) (stored n)])" for u k n s t pn tr
    by (simp add: numeral_3_eq_3 fetch_def happy_net classify_results)
  have p: "upload_parts happy_env 12582912 (Some ''u1'') ''a.bin'' 0 [] tr =
      (Inr [(1, Some ''e1''), (2, Some ''e2''), (3, Some ''e3'')],
       tr @ [Fetch (PutPart (Some ''u1'') ''a.bin'' 1 0 5242880) (stored 1),
         Fetch (PutPart (Some ''u1'') ''a.bin'' 2 5242880 10485760) (stored 2),
         Fetch (PutPart (Some ''u1'') ''a.bin'' 3 10485760 12582912) (stored 3)])" for tr
    by (simp add: upload_parts.simps totalParts_12MiB plan_defs happy_net r ok_def stored_def)
  show ?thesis
    by (simp add: multipart_protocol_def fetch_def happy_net big_file_facts created_def p
        absent_def ok_def)
qed


text \<open>
  C3. The claim: when create fails, no upload-part call is issued. The planner never looks
  at the status of the create response: it parses the body and reads \<open>uploadId\<close> from it.
  With create answered 401 and a JSON error body, \<open>uploadId\<close> is \<open>undefined\<close> and phase 2
  starts all the same: part 1 is requested (three times, here all answered 400) before the
  upload fails. Create itself is not retried.
\<close>

theorem failed_create_still_uploads_parts:
  "uploadFileMultipart 1 unauthorized_env big_file [] =
     Some (UploadFailed (FailedAfterRetries 1 (NotRetryable 400)),
       [Fetch (CreateSession ''a.bin'' ''video/mp4'') unauthorized,
        Fetch (PutPart None ''a.bin'' 1 0 5242880) bad_request,
        Sleep 2000,
        Fetch (PutPart None ''a.bin'' 1 0 5242880) bad_request,
        Sleep 3000,
        Fetch (PutPart None ''a.bin'' 1 0 5242880) bad_request])"
proof -
  have n: "net unauthorized_env tr (PutPart u k n s t) = bad_request"
    "net unauthorized_env tr (CreateSession k ft) = unauthorized"
    "url_length unauthorized_env u k n = 100" for tr u k n s t ft
    by (simp_all add: unauthorized_env_def)
  have r: "retry_loop unauthorized_env (PutPart None ''a.bin'' (Suc 0) 0 5242880) (Suc 0)
        3 None tr =
      (Inl (FailedAfterRetries (Suc 0) (NotRetryable 400)),
       tr @ [Fetch (PutPart None ''a.bin'' (Suc 0) 0 5242880) bad_request,
        Sleep 2000,
        Fetch (PutPart None ''a.bin'' (Suc 0) 0 5242880) bad_request,
        Sleep 3000,
        Fetch (PutPart None ''a.bin'' (Suc 0) 0 5242880) bad_request])" for tr
    by (simp add: numeral_3_eq_3 fetch_def n classify_results)
  have p: "upload_parts unauthorized_env 12582912 None ''a.bin'' 0 [] tr =
      (Inl (FailedAfterRetries (Suc 0) (NotRetryable 400)),
       tr @ [Fetch (PutPart None ''a.bin'' (Suc 0) 0 5242880) bad_request,
        Sleep 2000,
        Fetch (PutPart None ''a.bin'' (Suc 0) 0 5242880) bad_request,
        Sleep 3000,
        Fetch (PutPart None ''a.bin'' (Suc 0) 0 5242880) bad_request])" for tr
    by (subst upload_parts.simps) (simp add: totalParts_12MiB plan_defs n r)
  have m: "multipart_protocol unauthorized_env big_file 12582912 ''video/mp4'' [] =
      (Inl (FailedAfterRetries (Suc 0) (NotRetryable 400)),
       [Fetch (CreateSession ''a.bin'' ''video/mp4'') unauthorized,
        Fetch (PutPart None ''a.bin'' (Suc 0) 0 5242880) bad_request,
        Sleep 2000,
        Fetch (PutPart None ''a.bin'' (Suc 0) 0 5242880) bad_request,
        Sleep 3000,
        Fetch (PutPart None ''a.bin'' (Suc 0) 0 5242880) bad_request])"
    by (simp add: multipart_protocol_def fetch_def n big_file_facts unauthorized_def p)
  show ?thesis
    by (simp add: big_file_facts CHUNK_SIZE_def m)
qed

text \<open>
  C6, as the claim states it, fails: when the first request of part 1 is answered 503 and
  the second succeeds, the wait between the two is 2000 ms, not 1000 ms.
\<close>

theorem backoff_counterexample:
  "retry_loop flaky_env (PutPart (Some ''u1'') ''a.bin'' 1 0 5242880) 1 3 None [] =
     (Inr (Some (Response 200 (Obj None (Some ''e1'') False))),
      [Fetch (PutPart (Some ''u1'') ''a.bin'' 1 0 5242880) unavailable,
       Sleep 2000,
       Fetch (PutPart (Some ''u1'') ''a.bin'' 1 0 5242880) (stored 1)])"
  by (simp add: numeral_3_eq_3 fetch_def flaky_env_def classify_results)


lemma retry_loop_unrolled:
  "retry_loop e c pn 3 None tr =
     (let r1 = net e tr c; t1 = tr @ [Fetch c r1] in
      case classify r1 of
        Succeeded resp \<Rightarrow> (Inr (Some resp), t1)
      | _ \<Rightarrow>
        (let r2 = net e (t1 @ [Sleep 2000]) c; t2 = t1 @ [Sleep 2000, Fetch c r2] in
         case classify r2 of
           Succeeded resp \<Rightarrow> (Inr (Some resp), t2)
         | _ \<Rightarrow>
           (let r3 = net e (t2 @ [Sleep 3000]) c; t3 = t2 @ [Sleep 3000, Fetch c r3] in
            case classify r3 of
              Succeeded resp \<Rightarrow> (Inr (Some resp), t3)
            | Retryable resp \<Rightarrow> (Inr (Some resp), t3)
            | Threw err \<Rightarrow> (Inl (FailedAfterRetries pn err), t3))))"
  by (simp add: numeral_3_eq_3 fetch_def Let_def split: attempt.splits)

lemma upload_parts_stops:
  assumes "i < totalParts sz" and "url_length e uid key (i + 1) \<le> 15000"
    and "\<not> (\<exists>resp. fst (retry_loop e (PutPart uid key (i + 1) (part_start i) (part_end sz i))
                          (i + 1) 3 None tr) = Inr (Some resp) \<and> ok resp)"
  shows "\<exists>err. upload_parts e sz uid key i acc tr =
             (Inl err, snd (retry_loop e (PutPart uid key (i + 1) (part_start i) (part_end sz i))
                          (i + 1) 3 None tr))"
proof -
  let ?loop = "retry_loop e (PutPart uid key (i + 1) (part_start i) (part_end sz i))
                 (i + 1) 3 None tr"
  have g: "\<not> (\<not> isLastPart sz i \<and> blob_size sz i < CHUNK_SIZE)"
    using assms(1) by (simp add: minimum_guard_never_fires)
  obtain rres tr1 where l: "?loop = (rres, tr1)" by (cases ?loop) auto
  from assms(3) l have "\<not> (\<exists>resp. rres = Inr (Some resp) \<and> ok resp)" by simp
  then have "\<exists>err. upload_parts e sz uid key i acc tr = (Inl err, tr1)"
    using assms(1,2) g l
    by (subst upload_parts.simps) (auto split: sum.splits option.splits)
  then show ?thesis unfolding l snd_conv .
qed

lemma down_net:
  "net down_env tr (PutPart u k n s t) = unavailable"
  "net down_env tr (CreateSession k ft) = created"
  "url_length down_env u k n = 100"
  by (simp_all add: down_env_def)

lemma retryable_classify:
  "retryable_failure r \<Longrightarrow> classify r = Threw FetchThrew \<or> (\<exists>resp. classify r = Retryable resp)"
  by (auto simp: retryable_failure_def classify_def ok_def split: fetch_result.splits)

text \<open>
  C6, amended. For every part the planner makes at most 3 fetch attempts, with a wait of
  2 s between the first and the second and of 3 s between the second and the third. A
  retryable failure (a fetch that throws, or a response with status 408, 429 or 5xx) of the
  first attempt is followed by the second attempt after 2 s, and one of the second attempt by
  the third after 3 s; after three such failures the loop of the part ends without an ok
  response. When the loop of a part ends without an ok response, the loop over the parts
  stops there with an error and nothing more is sent; and the upload succeeds only if every
  part \<open>1, ..., totalParts\<close> was acknowledged.
\<close>

theorem retry_policy:
  "(\<exists>r1 r2 r3.
       snd (retry_loop e c pn 3 None tr) = tr @ [Fetch c r1]
     \<or> snd (retry_loop e c pn 3 None tr) = tr @ [Fetch c r1, Sleep 2000, Fetch c r2]
     \<or> snd (retry_loop e c pn 3 None tr) =
          tr @ [Fetch c r1, Sleep 2000, Fetch c r2, Sleep 3000, Fetch c r3])
   \<and> (let r1 = net e tr c; t1 = tr @ [Fetch c r1, Sleep 2000];
          r2 = net e t1 c; t2 = t1 @ [Fetch c r2, Sleep 3000];
          r3 = net e t2 c
      in (retryable_failure r1 \<longrightarrow>
            (\<exists>rest. snd (retry_loop e c pn 3 None tr) = t1 @ Fetch c r2 # rest))
       \<and> (retryable_failure r1 \<and> retryable_failure r2 \<longrightarrow>
            snd (retry_loop e c pn 3 None tr) = t2 @ [Fetch c r3])
       \<and> (retryable_failure r1 \<and> retryable_failure r2 \<and> retryable_failure r3 \<longrightarrow>
            \<not> (\<exists>resp. fst (retry_loop e c pn 3 None tr) = Inr (Some resp) \<and> ok resp)))
   \<and> (i < totalParts sz \<and> url_length e uid key (i + 1) \<le> 15000
       \<and> \<not> (\<exists>resp. fst (retry_loop e (PutPart uid key (i + 1) (part_start i) (part_end sz i))
                          (i + 1) 3 None tr) = Inr (Some resp) \<and> ok resp)
      \<longrightarrow> (\<exists>err. upload_parts e sz uid key i acc tr =
             (Inl err, snd (retry_loop e (PutPart uid key (i + 1) (part_start i) (part_end sz i))
                          (i + 1) 3 None tr))))
   \<and> (multipart_protocol e u sz ftype tr = (Inr (), tr')
      \<longrightarrow> map fst (stored_parts (drop (length tr) tr')) = [1..<Suc (totalParts sz)])"
proof -
  let ?r1 = "net e tr c"
  let ?t1 = "tr @ [Fetch c ?r1, Sleep 2000]"
  let ?r2 = "net e ?t1 c"
  let ?t2 = "?t1 @ [Fetch c ?r2, Sleep 3000]"
  let ?r3 = "net e ?t2 c"
  let ?loop = "retry_loop e c pn 3 None tr"
  have shape: "snd ?loop = tr @ [Fetch c ?r1]
     \<or> snd ?loop = tr @ [Fetch c ?r1, Sleep 2000, Fetch c ?r2]
     \<or> snd ?loop = tr @ [Fetch c ?r1, Sleep 2000, Fetch c ?r2, Sleep 3000, Fetch c ?r3]"
    by (simp add: retry_loop_unrolled Let_def split: attempt.splits)
  have second: "\<exists>rest. snd ?loop = ?t1 @ Fetch c ?r2 # rest" if "retryable_failure ?r1"
    using retryable_classify[OF that]
    by (auto simp: retry_loop_unrolled Let_def split: attempt.splits)
  have third: "snd ?loop = ?t2 @ [Fetch c ?r3]"
    if "retryable_failure ?r1 \<and> retryable_failure ?r2"
    using that retryable_classify[of ?r1] retryable_classify[of ?r2]
    by (auto simp: retry_loop_unrolled Let_def split: attempt.splits)
  have fails: "\<not> (\<exists>resp. fst ?loop = Inr (Some resp) \<and> ok resp)"
    if "retryable_failure ?r1 \<and> retryable_failure ?r2 \<and> retryable_failure ?r3"
    using that retryable_classify[of ?r1] retryable_classify[of ?r2] retryable_classify[of ?r3]
    by (auto simp: retry_loop_unrolled Let_def split: attempt.splits
        dest: classify_Retryable)
  have whole: "map fst (stored_parts (drop (length tr) tr')) = [1..<Suc (totalParts sz)]"
    if "multipart_protocol e u sz ftype tr = (Inr (), tr')"
    using multipart_protocol_trace[OF that] by auto
  show ?thesis
    unfolding Let_def
    using shape second third fails whole upload_parts_stops[of i sz e uid key tr acc]
    by blast
qed

theorem retry_policy_witness:
  "retryable_failure unavailable
   \<and> snd (retry_loop down_env (PutPart (Some ''u1'') ''a.bin'' 1 0 5242880) 1 3 None []) =
      [Fetch (PutPart (Some ''u1'') ''a.bin'' 1 0 5242880) unavailable,
       Sleep 2000,
       Fetch (PutPart (Some ''u1'') ''a.bin'' 1 0 5242880) unavailable,
       Sleep 3000,
       Fetch (PutPart (Some ''u1'') ''a.bin'' 1 0 5242880) unavailable]
   \<and> (\<exists>err. upload_parts down_env 12582912 (Some ''u1'') ''a.bin'' 0 [] [] =
        (Inl err,
         [Fetch (PutPart (Some ''u1'') ''a.bin'' 1 0 5242880) unavailable,
          Sleep 2000,
          Fetch (PutPart (Some ''u1'') ''a.bin'' 1 0 5242880) unavailable,
          Sleep 3000,
          Fetch (PutPart (Some ''u1'') ''a.bin'' 1 0 5242880) unavailable]))
   \<and> map fst (stored_parts (snd (multipart_protocol happy_env big_file 12582912 ''video/mp4'' [])))
       = [1..<Suc (totalParts 12582912)]"
proof -
  let ?c = "PutPart (Some ''u1'') ''a.bin'' 1 0 5242880"
  let ?t = "[Fetch ?c unavailable, Sleep 2000, Fetch ?c unavailable, Sleep 3000,
             Fetch ?c unavailable]"
  let ?loop = "retry_loop down_env ?c 1 3 None []"
  note T = retry_policy[where e = down_env and c = ?c and pn = 1 and tr = "[]" and i = 0
      and sz = 12582912 and uid = "Some ''u1''" and key = "''a.bin''" and acc = "[]",
      unfolded Let_def down_net append_Nil]
  have f: "retryable_failure unavailable"
    by (simp add: retryable_failure_def unavailable_def)
  have r: "snd ?loop = ?t"
    using T[THEN conjunct2, THEN conjunct1, THEN conjunct2, THEN conjunct1] f by simp
  have n: "\<not> (\<exists>resp. fst ?loop = Inr (Some resp) \<and> ok resp)"
    using T[THEN conjunct2, THEN conjunct1, THEN conjunct2, THEN conjunct2] f by simp
  have c: "PutPart (Some ''u1'') ''a.bin'' 1 (part_start 0) (part_end 12582912 0) = ?c"
    by (simp add: plan_defs)
  have h: "0 < totalParts 12582912 \<and> 100 \<le> (15000::nat)
       \<and> \<not> (\<exists>resp. fst (retry_loop down_env
                (PutPart (Some ''u1'') ''a.bin'' (0 + 1) (part_start 0) (part_end 12582912 0))
                (0 + 1) 3 None []) = Inr (Some resp) \<and> ok resp)"
    unfolding add.left_neutral c using n by (simp add: totalParts_12MiB)
  from T[THEN conjunct2, THEN conjunct2, THEN conjunct1, rule_format, OF h]
  have u: "\<exists>err. upload_parts down_env 12582912 (Some ''u1'') ''a.bin'' 0 [] [] = (Inl err, ?t)"
    unfolding add.left_neutral c r .
  have "multipart_protocol happy_env big_file 12582912 ''video/mp4'' [] =
      (Inr (), snd (multipart_protocol happy_env big_file 12582912 ''video/mp4'' []))"
    by (simp add: happy_run)
  from retry_policy[THEN conjunct2, THEN conjunct2, THEN conjunct2, rule_format, OF this]
  have s: "map fst (stored_parts
      (snd (multipart_protocol happy_env big_file 12582912 ''video/mp4'' [])))
       = [1..<Suc (totalParts 12582912)]"
    unfolding list.size drop_0 .
  from f r u s show ?thesis by (intro conjI)
qed

lemma retry_loop_requests:
  assumes "\<forall>resp. prev = Some resp \<longrightarrow> \<not> ok resp"
    and "retry_loop e c pn retries prev tr = (res, tr')"
  shows "\<exists>new. tr' = tr @ new
           \<and> (\<forall>ev \<in> set new. (\<exists>r. ev = Fetch c r) \<or> (\<exists>ms. ev = Sleep ms))
           \<and> (0 < retries \<longrightarrow> (\<exists>rest. new = Fetch c (net e tr c) # rest))
           \<and> (\<forall>resp. res = Inr (Some resp) \<and> ok resp \<longrightarrow> Fetch c (Resp resp) \<in> set new)"
  using assms
proof (induction retries arbitrary: prev tr)
  case 0
  then show ?case by auto
next
  case (Suc retries)
  let ?r = "net e tr c"
  let ?tr1 = "tr @ [Fetch c ?r]"
  let ?sl = "Sleep (1000 * (4 - int retries))"
  show ?case
  proof (cases "classify ?r")
    case (Succeeded resp)
    then have r: "?r = Resp resp" "ok resp" by (simp_all add: classify_Succeeded)
    from Suc.prems(2) Succeeded have "res = Inr (Some resp)" "tr' = ?tr1"
      by (simp_all add: fetch_def)
    then show ?thesis using r by (intro exI[of _ "[Fetch c ?r]"]) auto
  next
    case (Retryable resp)
    then have r: "?r = Resp resp" "\<not> ok resp" using classify_Retryable by blast+
    define tr2 where "tr2 = (if retries > 0 then ?tr1 @ [?sl] else ?tr1)"
    from Suc.prems(2) Retryable
    have "retry_loop e c pn retries (Some resp) tr2 = (res, tr')"
      by (auto simp: fetch_def tr2_def split: if_splits)
    from Suc.IH[OF _ this] r obtain new where new:
      "tr' = tr2 @ new"
      "\<forall>ev \<in> set new. (\<exists>r. ev = Fetch c r) \<or> (\<exists>ms. ev = Sleep ms)"
      "\<forall>resp. res = Inr (Some resp) \<and> ok resp \<longrightarrow> Fetch c (Resp resp) \<in> set new"
      by auto
    show ?thesis
      using new
      by (intro exI[of _ "drop (length tr) tr2 @ new"]) (auto simp: tr2_def)
  next
    case (Threw err)
    show ?thesis
    proof (cases "retries = 0")
      case True
      from Suc.prems(2) Threw True have "res = Inl (FailedAfterRetries pn err)" "tr' = ?tr1"
        by (simp_all add: fetch_def)
      then show ?thesis by (intro exI[of _ "[Fetch c ?r]"]) auto
    next
      case False
      let ?prev = "case ?r of NetworkError \<Rightarrow> prev | Resp resp \<Rightarrow> Some resp"
      have p: "\<forall>resp. ?prev = Some resp \<longrightarrow> \<not> ok resp"
        using classify_Threw[OF Threw] Suc.prems(1) by (cases ?r) simp_all
      from Suc.prems(2) Threw False
      have "retry_loop e c pn retries ?prev (?tr1 @ [?sl]) = (res, tr')"
        by (simp add: fetch_def)
      from Suc.IH[OF p this] obtain new where new:
        "tr' = (?tr1 @ [?sl]) @ new"
        "\<forall>ev \<in> set new. (\<exists>r. ev = Fetch c r) \<or> (\<exists>ms. ev = Sleep ms)"
        "\<forall>resp. res = Inr (Some resp) \<and> ok resp \<longrightarrow> Fetch c (Resp resp) \<in> set new"
        by auto
      show ?thesis
        using new by (intro exI[of _ "[Fetch c ?r, ?sl] @ new"]) auto
    qed
  qed
qed

lemma upload_parts_requests:
  assumes "upload_parts e sz uid key i acc tr = (res, tr')"
  shows "\<exists>new. tr' = tr @ new
           \<and> (\<forall>u k n s t r. Fetch (PutPart u k n s t) r \<in> set new \<longrightarrow>
                 u = uid \<and> k = key \<and> i < n \<and> n \<le> totalParts sz
                 \<and> s = part_start (n - 1) \<and> t = part_end sz (n - 1))
           \<and> (\<forall>parts. res = Inr parts \<longrightarrow>
                 (\<forall>j. i \<le> j \<and> j < totalParts sz \<longrightarrow>
                    (\<exists>resp. ok resp \<and>
                       Fetch (PutPart uid key (j + 1) (part_start j) (part_end sz j)) (Resp resp)
                         \<in> set new)))"
  using assms
proof (induction e sz uid key i acc tr arbitrary: res tr' rule: upload_parts.induct)
  case (1 e sz uid key i acc tr)
  let ?c = "PutPart uid key (i + 1) (part_start i) (part_end sz i)"
  note run = "1.prems"[unfolded upload_parts.simps[of e sz uid key i acc tr]]
  show ?case
  proof (cases "i < totalParts sz")
    case False
    with run have "res = Inr acc" "tr' = tr" by simp_all
    with False show ?thesis by simp
  next
    case inside: True
    show ?thesis
    proof (cases "(\<not> isLastPart sz i \<and> blob_size sz i < CHUNK_SIZE)
        \<or> 15000 < url_length e uid key (i + 1)")
      case True
      with run inside have "tr' = tr" "\<exists>err. res = Inl err"
        by (auto split: if_splits)
      then show ?thesis by auto
    next
      case guards: False
      obtain rres tr1 where rl: "retry_loop e ?c (i + 1) 3 None tr = (rres, tr1)"
        by (cases "retry_loop e ?c (i + 1) 3 None tr") auto
      from retry_loop_requests[OF _ rl] obtain new1 where new1:
        "tr1 = tr @ new1"
        "\<forall>ev \<in> set new1. (\<exists>r. ev = Fetch ?c r) \<or> (\<exists>ms. ev = Sleep ms)"
        "\<forall>resp. rres = Inr (Some resp) \<and> ok resp \<longrightarrow> Fetch ?c (Resp resp) \<in> set new1"
        by auto
      have own: "\<forall>u k n s t r. Fetch (PutPart u k n s t) r \<in> set new1 \<longrightarrow>
                 u = uid \<and> k = key \<and> i < n \<and> n \<le> totalParts sz
                 \<and> s = part_start (n - 1) \<and> t = part_end sz (n - 1)"
        using new1(2) inside by auto
      show ?thesis
      proof (cases "\<exists>resp u etag x. rres = Inr (Some resp) \<and> ok resp
          \<and> resp_json resp = Obj u etag x")
        case False
        with run inside guards rl have "tr' = tr1" "\<exists>err. res = Inl err"
          by (auto split: sum.splits option.splits json_reply.splits if_splits)
        with new1(1) own show ?thesis by (intro exI[of _ new1]) auto
      next
        case True
        then obtain resp u etag x where ok:
          "rres = Inr (Some resp)" "ok resp" "resp_json resp = Obj u etag x"
          by blast
        from guards have g: "\<not> (\<not> isLastPart sz i \<and> blob_size sz i < CHUNK_SIZE)"
          "\<not> 15000 < url_length e uid key (i + 1)" by auto
        have rec: "upload_parts e sz uid key (i + 1) (acc @ [(i + 1, etag)]) tr1 = (res, tr')"
          using upload_parts_step[OF inside g rl[unfolded ok(1)] ok(2,3), of acc] "1.prems"
          by simp
        from "1.IH"[OF inside g rl[symmetric] ok(1) refl _ ok(3) rec] ok(2)
        obtain new2 where new2:
          "tr' = tr1 @ new2"
          "\<forall>u k n s t r. Fetch (PutPart u k n s t) r \<in> set new2 \<longrightarrow>
                 u = uid \<and> k = key \<and> i + 1 < n \<and> n \<le> totalParts sz
                 \<and> s = part_start (n - 1) \<and> t = part_end sz (n - 1)"
          "\<forall>parts. res = Inr parts \<longrightarrow>
                 (\<forall>j. i + 1 \<le> j \<and> j < totalParts sz \<longrightarrow>
                    (\<exists>resp. ok resp \<and>
                       Fetch (PutPart uid key (j + 1) (part_start j) (part_end sz j)) (Resp resp)
                         \<in> set new2))"
          by auto
        have here: "Fetch ?c (Resp resp) \<in> set new1" using new1(3) ok by simp
        have all: "\<exists>resp. ok resp \<and>
              Fetch (PutPart uid key (j + 1) (part_start j) (part_end sz j)) (Resp resp)
                \<in> set (new1 @ new2)"
          if "res = Inr parts" "i \<le> j" "j < totalParts sz" for parts j
        proof (cases "j = i")
          case True
          then show ?thesis using here ok(2) by auto
        next
          case False
          with that have "i + 1 \<le> j" by simp
          with new2(3) that show ?thesis by fastforce
        qed
        have reqs: "\<forall>u k n s t r. Fetch (PutPart u k n s t) r \<in> set (new1 @ new2) \<longrightarrow>
                 u = uid \<and> k = key \<and> i < n \<and> n \<le> totalParts sz
                 \<and> s = part_start (n - 1) \<and> t = part_end sz (n - 1)"
          using own new2(2) by fastforce
        have t: "tr' = tr @ (new1 @ new2)" using new1(1) new2(1) by simp
        show ?thesis
          using t reqs all
          by (intro exI[of _ "new1 @ new2"]) blast
      qed
    qed
  qed
qed

lemma upload_parts_first:
  assumes "i < totalParts sz" and "url_length e uid key (i + 1) \<le> 15000"
  shows "\<exists>rest. snd (upload_parts e sz uid key i acc tr) =
           tr @ Fetch (PutPart uid key (i + 1) (part_start i) (part_end sz i))
                  (net e tr (PutPart uid key (i + 1) (part_start i) (part_end sz i))) # rest"
proof -
  let ?c = "PutPart uid key (i + 1) (part_start i) (part_end sz i)"
  have g: "\<not> (\<not> isLastPart sz i \<and> blob_size sz i < CHUNK_SIZE)"
    using assms(1) by (rule minimum_guard_never_fires)
  have u: "\<not> 15000 < url_length e uid key (i + 1)" using assms(2) by simp
  obtain rres tr1 where rl: "retry_loop e ?c (i + 1) 3 None tr = (rres, tr1)"
    by (cases "retry_loop e ?c (i + 1) 3 None tr") auto
  from retry_loop_requests[OF _ rl] obtain rest1 where
    tr1: "tr1 = tr @ Fetch ?c (net e tr ?c) # rest1"
    by auto
  show ?thesis
  proof (cases "\<exists>resp u etag x. rres = Inr (Some resp) \<and> ok resp
          \<and> resp_json resp = Obj u etag x")
    case False
    with assms(1) g u rl have "snd (upload_parts e sz uid key i acc tr) = tr1"
      by (subst upload_parts.simps)
        (auto split: sum.splits option.splits json_reply.splits if_splits)
    with tr1 show ?thesis by simp
  next
    case True
    then obtain resp u' etag x where ok:
      "rres = Inr (Some resp)" "ok resp" "resp_json resp = Obj u' etag x"
      by blast
    have "upload_parts e sz uid key i acc tr
          = upload_parts e sz uid key (i + 1) (acc @ [(i + 1, etag)]) tr1"
      by (rule upload_parts_step[OF assms(1) g u rl[unfolded ok(1)] ok(2,3)])
    moreover obtain new2 where
      "snd (upload_parts e sz uid key (i + 1) (acc @ [(i + 1, etag)]) tr1) = tr1 @ new2"
      using upload_parts_trace[OF surjective_pairing] by blast
    ultimately show ?thesis using tr1 by simp
  qed
qed


lemma happy_parts:
  "upload_parts happy_env 12582912 (Some ''u1'') ''a.bin'' 0 [] tr =
      (Inr [(1, Some ''e1''), (2, Some ''e2''), (3, Some ''e3'')],
       tr @ [Fetch (PutPart (Some ''u1'') ''a.bin'' 1 0 5242880) (stored 1),
         Fetch (PutPart (Some ''u1'') ''a.bin'' 2 5242880 10485760) (stored 2),
         Fetch (PutPart (Some ''u1'') ''a.bin'' 3 10485760 12582912) (stored 3)])"
proof -
  have r: "retry_loop happy_env (PutPart u k n s t) pn 3 None tr =
      (Inr (Some (Response 200 (Obj None
         (Some (if n = 1 then ''e1'' else if n = 2 then ''e2'' else ''e3'')) False))),
       tr @ [Fetch (PutPart u k n s t) (stored n)])" for u k n s t pn tr
    by (simp add: numeral_3_eq_3 fetch_def happy_net classify_results)
  show ?thesis
    by (simp add: upload_parts.simps totalParts_12MiB plan_defs happy_net r ok_def stored_def)
qed

text \<open>
  C8. For every file at least one chunk long, the number of parts is the ceiling of
  \<open>file.size / CHUNK_SIZE\<close>; part \<open>i\<close> covers the non-empty byte range from
  \<open>i * CHUNK_SIZE\<close> to \<open>min file.size ((i + 1) * CHUNK_SIZE)\<close> and its blob has that
  length; the lengths add up to the file size; every part but the last is exactly one chunk
  long, so the minimum-size check, which precedes the fetch of a part, never raises its
  error. The loop over the parts sends this plan: entered at \<open>i\<close>, it first requests part
  \<open>i + 1\<close> with the bytes from \<open>part_start i\<close> to \<open>part_end sz i\<close>; every part request
  it issues has a number \<open>n\<close> from 1 to \<open>totalParts\<close> and carries the range of part
  \<open>n - 1\<close> of the plan; and when it ends without an error, every part of the plan was
  requested with its range and answered with an ok response.
\<close>

theorem chunk_plan:
  assumes "CHUNK_SIZE \<le> sz"
  shows "int (totalParts sz) = \<lceil>real sz / real CHUNK_SIZE\<rceil>
     \<and> (\<forall>i<totalParts sz.
          part_start i = i * CHUNK_SIZE
          \<and> part_end sz i = min sz ((i + 1) * CHUNK_SIZE)
          \<and> part_start i < part_end sz i
          \<and> blob_size sz i = part_end sz i - part_start i)
     \<and> (\<Sum>i<totalParts sz. blob_size sz i) = sz
     \<and> (\<forall>i. i + 1 < totalParts sz \<longrightarrow> blob_size sz i = CHUNK_SIZE)
     \<and> (\<forall>e uid key i acc tr n.
          fst (upload_parts e sz uid key i acc tr) \<noteq> Inl (PartBelowMinimum n))
     \<and> (\<forall>e uid key i acc tr.
          i < totalParts sz \<and> url_length e uid key (i + 1) \<le> 15000 \<longrightarrow>
          (\<exists>rest. snd (upload_parts e sz uid key i acc tr) =
             tr @ Fetch (PutPart uid key (i + 1) (part_start i) (part_end sz i))
                    (net e tr (PutPart uid key (i + 1) (part_start i) (part_end sz i))) # rest))
     \<and> (\<forall>e uid key tr u k n s t r.
          Fetch (PutPart u k n s t) r
            \<in> set (drop (length tr) (snd (upload_parts e sz uid key 0 [] tr))) \<longrightarrow>
          u = uid \<and> k = key \<and> 1 \<le> n \<and> n \<le> totalParts sz
          \<and> s = part_start (n - 1) \<and> t = part_end sz (n - 1))
     \<and> (\<forall>e uid key tr parts.
          fst (upload_parts e sz uid key 0 [] tr) = Inr parts \<longrightarrow>
          (\<forall>i<totalParts sz. \<exists>resp. ok resp \<and>
             Fetch (PutPart uid key (i + 1) (part_start i) (part_end sz i)) (Resp resp)
               \<in> set (drop (length tr) (snd (upload_parts e sz uid key 0 [] tr)))))"
proof (intro conjI allI impI)
  have "(0::real) \<le> real sz / real CHUNK_SIZE" by simp
  then have "- 1 < real sz / real CHUNK_SIZE" by linarith
  then have "0 \<le> \<lceil>real sz / real CHUNK_SIZE\<rceil>" by (simp only: zero_le_ceiling)
  then show "int (totalParts sz) = \<lceil>real sz / real CHUNK_SIZE\<rceil>"
    unfolding totalParts_def by (rule nat_0_le)
next
  fix i assume i: "i < totalParts sz"
  show "part_start i = i * CHUNK_SIZE" by (simp add: part_start_def)
  show "part_end sz i = min sz ((i + 1) * CHUNK_SIZE)"
    by (simp add: part_end_def part_start_def mult.commute)
  have lo: "i * CHUNK_SIZE < sz" by (rule totalParts_lower[OF i])
  then show "part_start i < part_end sz i"
    using CHUNK_SIZE_pos by (simp add: part_end_def part_start_def mult.commute)
  show "blob_size sz i = part_end sz i - part_start i"
    using lo by (simp add: blob_size_def slice_size_def part_end_def part_start_def
        mult.commute min_def)
next
  show "(\<Sum>i<totalParts sz. blob_size sz i) = sz" by (rule blob_sizes_sum)
next
  fix i assume "i + 1 < totalParts sz"
  then show "blob_size sz i = CHUNK_SIZE" by (simp add: non_final_full)
next
  fix e uid key i acc tr n
  show "fst (upload_parts e sz uid key i acc tr) \<noteq> Inl (PartBelowMinimum n)"
    by (rule never_below_minimum)
next
  fix e :: env and uid key i acc tr
  assume "i < totalParts sz \<and> url_length e uid key (i + 1) \<le> 15000"
  then have "i < totalParts sz" "url_length e uid key (i + 1) \<le> 15000" by simp_all
  then show "\<exists>rest. snd (upload_parts e sz uid key i acc tr) =
             tr @ Fetch (PutPart uid key (i + 1) (part_start i) (part_end sz i))
                    (net e tr (PutPart uid key (i + 1) (part_start i) (part_end sz i))) # rest"
    by (rule upload_parts_first)
next
  fix e uid key tr u k n s t r
  assume a: "Fetch (PutPart u k n s t) r
            \<in> set (drop (length tr) (snd (upload_parts e sz uid key 0 [] tr)))"
  from upload_parts_requests[OF surjective_pairing, of e sz uid key 0 "[]" tr]
  obtain new where new: "snd (upload_parts e sz uid key 0 [] tr) = tr @ new"
    "\<forall>u k n s t r. Fetch (PutPart u k n s t) r \<in> set new \<longrightarrow>
        u = uid \<and> k = key \<and> 0 < n \<and> n \<le> totalParts sz
        \<and> s = part_start (n - 1) \<and> t = part_end sz (n - 1)"
    by (elim exE conjE) (rule that)
  from a new(1) have "Fetch (PutPart u k n s t) r \<in> set new" by simp
  with new(2) have b: "u = uid \<and> k = key \<and> 0 < n \<and> n \<le> totalParts sz
        \<and> s = part_start (n - 1) \<and> t = part_end sz (n - 1)" by blast
  from b show "u = uid" "k = key" "1 \<le> n" "n \<le> totalParts sz"
    "s = part_start (n - 1)" "t = part_end sz (n - 1)" by simp_all
next
  fix e uid key tr parts i
  assume a: "fst (upload_parts e sz uid key 0 [] tr) = Inr parts" and i: "i < totalParts sz"
  have p: "upload_parts e sz uid key 0 [] tr = (Inr parts, snd (upload_parts e sz uid key 0 [] tr))"
    using a by (cases "upload_parts e sz uid key 0 [] tr") simp
  from upload_parts_requests[OF p]
  obtain new where new: "snd (upload_parts e sz uid key 0 [] tr) = tr @ new"
    "\<forall>parts'. (Inr parts :: error + (nat \<times> string option) list) = Inr parts' \<longrightarrow>
       (\<forall>j. 0 \<le> j \<and> j < totalParts sz \<longrightarrow>
        (\<exists>resp. ok resp \<and>
           Fetch (PutPart uid key (j + 1) (part_start j) (part_end sz j)) (Resp resp) \<in> set new))"
    by (elim exE conjE) (rule that)
  from new(2) have "\<forall>j. 0 \<le> j \<and> j < totalParts sz \<longrightarrow>
        (\<exists>resp. ok resp \<and>
           Fetch (PutPart uid key (j + 1) (part_start j) (part_end sz j)) (Resp resp) \<in> set new)"
    by simp
  then have "\<exists>resp. ok resp \<and>
           Fetch (PutPart uid key (i + 1) (part_start i) (part_end sz i)) (Resp resp) \<in> set new"
    using i by simp
  then show "\<exists>resp. ok resp \<and>
             Fetch (PutPart uid key (i + 1) (part_start i) (part_end sz i)) (Resp resp)
               \<in> set (drop (length tr) (snd (upload_parts e sz uid key 0 [] tr)))"
    by (simp add: new(1))
qed

theorem chunk_plan_witness:
  "CHUNK_SIZE \<le> 12582912
   \<and> totalParts 12582912 = 3
   \<and> blob_size 12582912 0 = 5242880
   \<and> blob_size 12582912 1 = 5242880
   \<and> blob_size 12582912 2 = 2097152
   \<and> (\<Sum>i<totalParts 12582912. blob_size 12582912 i) = 12582912
   \<and> snd (upload_parts happy_env 12582912 (Some ''u1'') ''a.bin'' 0 [] []) =
       [Fetch (PutPart (Some ''u1'') ''a.bin'' 1 0 5242880) (stored 1),
        Fetch (PutPart (Some ''u1'') ''a.bin'' 2 5242880 10485760) (stored 2),
        Fetch (PutPart (Some ''u1'') ''a.bin'' 3 10485760 12582912) (stored 3)]
   \<and> (\<exists>resp. ok resp \<and>
        Fetch (PutPart (Some ''u1'') ''a.bin'' 3 10485760 12582912) (Resp resp)
          \<in> set (snd (upload_parts happy_env 12582912 (Some ''u1'') ''a.bin'' 0 [] [])))"
proof -
  have h: "CHUNK_SIZE \<le> 12582912" by (simp add: CHUNK_SIZE_def)
  have b: "blob_size 12582912 0 = 5242880" "blob_size 12582912 1 = 5242880"
    "blob_size 12582912 2 = 2097152"
    by (simp_all add: blob_size_def slice_size_def part_start_def part_end_def CHUNK_SIZE_def)
  note plan = chunk_plan[OF h]
  from plan
  have s: "(\<Sum>i<totalParts 12582912. blob_size 12582912 i) = 12582912"
    by (rule conjunct1[OF conjunct2[OF conjunct2]])
  have t: "snd (upload_parts happy_env 12582912 (Some ''u1'') ''a.bin'' 0 [] []) =
       [Fetch (PutPart (Some ''u1'') ''a.bin'' 1 0 5242880) (stored 1),
        Fetch (PutPart (Some ''u1'') ''a.bin'' 2 5242880 10485760) (stored 2),
        Fetch (PutPart (Some ''u1'') ''a.bin'' 3 10485760 12582912) (stored 3)]"
    by (simp add: happy_parts)
  have f: "fst (upload_parts happy_env 12582912 (Some ''u1'') ''a.bin'' 0 [] []) =
      Inr [(1, Some ''e1''), (2, Some ''e2''), (3, Some ''e3'')]"
    by (simp add: happy_parts)
  have two: "(2::nat) < totalParts 12582912" by (simp add: totalParts_12MiB)
  have rng: "part_start 2 = 10485760" "part_end 12582912 2 = 12582912" "(2::nat) + 1 = 3"
    by (simp_all add: part_start_def part_end_def CHUNK_SIZE_def)
  from plan[THEN conjunct2, THEN conjunct2, THEN conjunct2, THEN conjunct2, THEN conjunct2,
      THEN conjunct2, THEN conjunct2, rule_format, OF f two]
  have l: "\<exists>resp. ok resp \<and>
        Fetch (PutPart (Some ''u1'') ''a.bin'' 3 10485760 12582912) (Resp resp)
          \<in> set (snd (upload_parts happy_env 12582912 (Some ''u1'') ''a.bin'' 0 [] []))"
    unfolding rng list.size drop_0 .
  show ?thesis by (intro conjI h totalParts_12MiB b s t l)
qed

section \<open>Properties of the simple upload\<close>

lemma report_filename:
  "upload_filename
     \<lparr>uf_name = ''report.txt'', uf_type = ''text/plain'', uf_bytes = [110, 101, 119]\<rparr>
     None (Some ''/docs//2024/'') = ''docs/2024/report.txt''"
  by (simp add: upload_filename_def falsy_def trim_def strip_slashes_def is_ws_def
      last_segment_def)

text \<open>
  C10. Whatever the bucket holds, the upload handler calls \<open>put\<close> under the key it
  computes, with no look-up before it and no precondition, and its answer is decided by the
  result of \<open>put\<close> alone: 200 when \<open>put\<close> returns the stored object, 500 when it throws
  or returns \<open>null\<close>. No status reports a conflict. With the \<open>put\<close> of a key-value store,
  the request is answered 200 and the bucket then maps the key to the new object, also when
  it mapped it to another one before, and the answer does not depend on the bucket's
  content. The guard against replacing an object is in the browser: when the existence check
  reports the key and the user declines, \<open>uploadFileSimple\<close> returns without sending the
  file.
\<close>

theorem simple_upload_overwrites:
  "(up_method rq \<noteq> ''OPTIONS'' \<and> up_authenticated rq \<and> up_bucket_bound rq
      \<and> up_form rq = Some formData \<and> fd_file formData = Some file \<longrightarrow>
      POST_upload put b rq =
        (case put b (upload_filename file (fd_key formData) (fd_folder formData)) file of
           (PutThrows, b') \<Rightarrow> ((500, ErrorMessage ''Upload failed''), b')
         | (PutNull, b') \<Rightarrow> ((500, ErrorMessage ''Failed to upload file''), b')
         | (PutObject k, b') \<Rightarrow>
             ((200, Uploaded (upload_filename file (fd_key formData) (fd_folder formData)) k
                      (length (uf_bytes file)) (uf_type file)), b'))
      \<and> POST_upload kv_put b rq =
        ((200, Uploaded (upload_filename file (fd_key formData) (fd_folder formData))
                 (upload_filename file (fd_key formData) (fd_folder formData))
                 (length (uf_bytes file)) (uf_type file)),
         b(upload_filename file (fd_key formData) (fd_folder formData)
             \<mapsto> (uf_bytes file, uf_type file))))
   \<and> fst (fst (POST_upload put b rq)) \<in> {200, 204, 400, 401, 500}
   \<and> fst (POST_upload kv_put b rq) = fst (POST_upload kv_put b' rq)
   \<and> (ui_file u = Some (sz, ftype) \<and> sz \<le> FILE_SIZE_THRESHOLD
       \<and> confirm_replace e u tr = (False, tr1) \<longrightarrow>
       uploadFileSimple (Suc n) e u tr = Some (Cancelled, tr1))"
proof (intro conjI impI)
  assume a: "up_method rq \<noteq> ''OPTIONS'' \<and> up_authenticated rq \<and> up_bucket_bound rq
      \<and> up_form rq = Some formData \<and> fd_file formData = Some file"
  then show "POST_upload put b rq =
        (case put b (upload_filename file (fd_key formData) (fd_folder formData)) file of
           (PutThrows, b') \<Rightarrow> ((500, ErrorMessage ''Upload failed''), b')
         | (PutNull, b') \<Rightarrow> ((500, ErrorMessage ''Failed to upload file''), b')
         | (PutObject k, b') \<Rightarrow>
             ((200, Uploaded (upload_filename file (fd_key formData) (fd_folder formData)) k
                      (length (uf_bytes file)) (uf_type file)), b'))"
    by (simp add: POST_upload_def api_success_def api_error_def Let_def
        split: prod.splits put_outcome.splits)
  from a show "POST_upload kv_put b rq =
        ((200, Uploaded (upload_filename file (fd_key formData) (fd_folder formData))
                 (upload_filename file (fd_key formData) (fd_folder formData))
                 (length (uf_bytes file)) (uf_type file)),
         b(upload_filename file (fd_key formData) (fd_folder formData)
             \<mapsto> (uf_bytes file, uf_type file)))"
    by (simp add: POST_upload_def api_success_def kv_put_def Let_def)
next
  show "fst (fst (POST_upload put b rq)) \<in> {200, 204, 400, 401, 500}"
    by (auto simp: POST_upload_def api_success_def api_error_def Let_def
        split: option.splits prod.splits put_outcome.splits)
next
  show "fst (POST_upload kv_put b rq) = fst (POST_upload kv_put b' rq)"
    by (auto simp: POST_upload_def api_success_def kv_put_def Let_def split: option.splits)
next
  assume "ui_file u = Some (sz, ftype) \<and> sz \<le> FILE_SIZE_THRESHOLD
       \<and> confirm_replace e u tr = (False, tr1)"
  then show "uploadFileSimple (Suc n) e u tr = Some (Cancelled, tr1)"
    by simp
qed

theorem simple_upload_overwrites_witness:
  "old_bucket ''docs/2024/report.txt'' = Some ([111, 108, 100, 33], ''text/plain'')
   \<and> POST_upload kv_put old_bucket report_upload =
       ((200, Uploaded ''docs/2024/report.txt'' ''docs/2024/report.txt'' 3 ''text/plain''),
        old_bucket(''docs/2024/report.txt'' \<mapsto> ([110, 101, 119], ''text/plain'')))
   \<and> POST_upload failing_put old_bucket report_upload =
       ((500, ErrorMessage ''Upload failed''), old_bucket)
   \<and> uploadFileSimple 1 declining_env small_file [] =
       Some (Cancelled,
         [Fetch (CheckAsset ''docs/2024/report.txt'') (Resp (Response 200 (Obj None None True))),
          Confirm False])"
proof -
  let ?file = "\<lparr>uf_name = ''report.txt'', uf_type = ''text/plain'', uf_bytes = [110, 101, 119]\<rparr>"
  let ?form = "\<lparr>fd_file = Some ?file, fd_key = None, fd_folder = Some ''/docs//2024/''\<rparr>"
  have h: "up_method report_upload \<noteq> ''OPTIONS'' \<and> up_authenticated report_upload
      \<and> up_bucket_bound report_upload \<and> up_form report_upload = Some ?form
      \<and> fd_file ?form = Some ?file"
    by (simp add: report_upload_def)
  note T = simple_upload_overwrites[THEN conjunct1, rule_format, OF h]
  have p: "POST_upload kv_put old_bucket report_upload =
       ((200, Uploaded ''docs/2024/report.txt'' ''docs/2024/report.txt'' 3 ''text/plain''),
        old_bucket(''docs/2024/report.txt'' \<mapsto> ([110, 101, 119], ''text/plain'')))"
    using T[THEN conjunct2, of old_bucket] by (simp add: report_filename)
  have q: "POST_upload failing_put old_bucket report_upload =
       ((500, ErrorMessage ''Upload failed''), old_bucket)"
    using T[THEN conjunct1, of failing_put old_bucket] by (simp add: failing_put_def)
  have g: "ui_file small_file = Some (2048, ''text/plain'') \<and> 2048 \<le> FILE_SIZE_THRESHOLD
       \<and> confirm_replace declining_env small_file [] =
      (False, [Fetch (CheckAsset ''docs/2024/report.txt'')
                 (Resp (Response 200 (Obj None None True))),
          Confirm False])"
    by (simp add: confirm_replace_def small_file_def finalKey_def falsy_def fetch_def
        declining_env_def ok_def FILE_SIZE_THRESHOLD_def)
  have s: "uploadFileSimple 1 declining_env small_file [] =
       Some (Cancelled,
         [Fetch (CheckAsset ''docs/2024/report.txt'') (Resp (Response 200 (Obj None None True))),
          Confirm False])"
    using simple_upload_overwrites[THEN conjunct2, THEN conjunct2, THEN conjunct2,
        rule_format, OF g, of 0]
    by simp
  have o: "old_bucket ''docs/2024/report.txt'' = Some ([111, 108, 100, 33], ''text/plain'')"
    by (simp add: old_bucket_def)
  from o p q s show ?thesis by (intro conjI)
qed

end
